theory Spec2Isabelle
  imports Main
begin

section \<open>JavaScript values, strings and numbers\<close>

text \<open>
  The two applications (\<^verbatim>\<open>apps/base_app/main.ts\<close> and the REST-API application) read
  event payloads whose fields are typed \<^verbatim>\<open>unknown\<close>. A payload value is modelled by its
  run-time type. A number is an integer or \<^verbatim>\<open>NaN\<close> (the source tests for \<^verbatim>\<open>NaN\<close>
  explicitly); the fields that carry numbers are event codes and row indices, and a
  fractional number is outside the model. Strings are \<^typ>\<open>string\<close>.

  \<^verbatim>\<open>String.prototype.toUpperCase\<close>, \<^verbatim>\<open>toLowerCase\<close> and \<^verbatim>\<open>trim\<close> belong to the
  platform, not to the repository. The functions \<open>toUpperCase\<close>, \<open>toLowerCase\<close> and
  \<open>trim\<close> below are what the platform's functions do on the ASCII range: the letters
  a to z and A to Z change case, and the ASCII white space is trimmed. The event
  normalizer, whose result on a string depends on nothing but the upper-cased string,
  takes the platform's \<^verbatim>\<open>toUpperCase\<close> as a parameter, so that what is proved of it
  holds for the mapping of the platform, whatever it does beyond ASCII; the listeners
  call it with \<open>toUpperCase\<close>.
\<close>

datatype jsnum = Num int | NaN

datatype jsval = JUndefined | JNull | JNumber jsnum | JString string | JOther

definition nullish :: "jsval \<Rightarrow> bool" where
  "nullish v = (v = JUndefined \<or> v = JNull)"

text \<open>The chain \<^verbatim>\<open>a ?? b ?? ... ?? z\<close>: the first operand that is neither \<^verbatim>\<open>undefined\<close>
  nor \<^verbatim>\<open>null\<close>, and the last operand when there is none.\<close>

fun nullishChain :: "jsval list \<Rightarrow> jsval" where
  "nullishChain [] = JUndefined"
| "nullishChain [v] = v"
| "nullishChain (v # w # vs) = (if nullish v then nullishChain (w # vs) else v)"

definition toUpperChar :: "char \<Rightarrow> char" where
  "toUpperChar c =
     (case map_of (zip ''abcdefghijklmnopqrstuvwxyz'' ''ABCDEFGHIJKLMNOPQRSTUVWXYZ'') c of
        Some u \<Rightarrow> u | None \<Rightarrow> c)"

definition toLowerChar :: "char \<Rightarrow> char" where
  "toLowerChar c =
     (case map_of (zip ''ABCDEFGHIJKLMNOPQRSTUVWXYZ'' ''abcdefghijklmnopqrstuvwxyz'') c of
        Some l \<Rightarrow> l | None \<Rightarrow> c)"

definition toUpperCase :: "string \<Rightarrow> string" where
  "toUpperCase s = map toUpperChar s"

definition toLowerCase :: "string \<Rightarrow> string" where
  "toLowerCase s = map toLowerChar s"

fun startsWith :: "string \<Rightarrow> string \<Rightarrow> bool" where
  "startsWith s [] = True"
| "startsWith [] (p # ps) = False"
| "startsWith (c # cs) (p # ps) = (c = p \<and> startsWith cs ps)"

fun includesStr :: "string \<Rightarrow> string \<Rightarrow> bool" where
  "includesStr [] p = (p = [])"
| "includesStr (c # cs) p = (startsWith (c # cs) p \<or> includesStr cs p)"

definition isWhiteSpace :: "char \<Rightarrow> bool" where
  "isWhiteSpace c = (c \<in> set [CHR 0x09, CHR 0x0A, CHR 0x0B, CHR 0x0C, CHR 0x0D, CHR '' ''])"

definition trim :: "string \<Rightarrow> string" where
  "trim s = rev (dropWhile isWhiteSpace (rev (dropWhile isWhiteSpace s)))"

definition digitVal :: "char \<Rightarrow> nat option" where
  "digitVal c = map_of (zip ''0123456789'' [0, 1, 2, 3, 4, 5, 6, 7, 8, 9]) c"

definition isDigit :: "char \<Rightarrow> bool" where
  "isDigit c = (digitVal c \<noteq> None)"

definition digitsToNat :: "string \<Rightarrow> nat" where
  "digitsToNat ds = foldl (\<lambda>acc d. 10 * acc + (case digitVal d of Some k \<Rightarrow> k | None \<Rightarrow> 0)) 0 ds"

text \<open>\<^verbatim>\<open>Number.parseInt(s, 10)\<close>: leading white space, an optional sign, then the longest
  run of decimal digits; \<^verbatim>\<open>NaN\<close> when there is no digit.\<close>

definition parseInt10 :: "string \<Rightarrow> jsnum" where
  "parseInt10 s =
     (let t = dropWhile isWhiteSpace s;
          neg = (case t of c # cs \<Rightarrow> c = CHR ''-'' | [] \<Rightarrow> False);
          r = (case t of c # cs \<Rightarrow> if c = CHR ''-'' \<or> c = CHR ''+'' then cs else t | [] \<Rightarrow> []);
          ds = takeWhile isDigit r
      in if ds = [] then NaN
         else Num (if neg then - int (digitsToNat ds) else int (digitsToNat ds)))"

text \<open>\<^verbatim>\<open>Array.prototype.findIndex\<close> and \<^verbatim>\<open>indexOf\<close>: the first position, or \<open>-1\<close>.\<close>

fun findIndexFrom :: "int \<Rightarrow> ('a \<Rightarrow> bool) \<Rightarrow> 'a list \<Rightarrow> int" where
  "findIndexFrom i P [] = - 1"
| "findIndexFrom i P (x # xs) = (if P x then i else findIndexFrom (i + 1) P xs)"

definition findIndex :: "('a \<Rightarrow> bool) \<Rightarrow> 'a list \<Rightarrow> int" where
  "findIndex P xs = findIndexFrom 0 P xs"

definition indexOf :: "'a list \<Rightarrow> 'a \<Rightarrow> int" where
  "indexOf xs x = findIndexFrom 0 (\<lambda>y. y = x) xs"

section \<open>Events of the bridge\<close>

datatype OsEventTypeList =
  CLICK_EVENT | SCROLL_TOP_EVENT | SCROLL_BOTTOM_EVENT | DOUBLE_CLICK_EVENT

record list_event =
  le_eventType :: jsval
  currentSelectItemIndex :: jsval
  currentSelectItemName :: jsval

record text_event =
  te_eventType :: jsval

record sys_event =
  se_eventType :: jsval

text \<open>An \<^verbatim>\<open>EvenHubEvent\<close>: three optional sub-events, the top-level \<^verbatim>\<open>eventType\<close> property
  and the optional \<^verbatim>\<open>jsonData\<close> object, a list of properties read by name.\<close>

record even_hub_event =
  listEvent :: "list_event option"
  textEvent :: "text_event option"
  sysEvent :: "sys_event option"
  ev_eventType :: jsval
  jsonData :: "(string \<times> jsval) list option"

definition rawOf :: "even_hub_event \<Rightarrow> string \<Rightarrow> jsval" where
  "rawOf event k =
     (case map_of (case jsonData event of None \<Rightarrow> [] | Some kvs \<Rightarrow> kvs) k of
        None \<Rightarrow> JUndefined | Some v \<Rightarrow> v)"

subsection \<open>Event decoder and normalizer of the base application\<close>

text \<open>The first argument \<open>up\<close> of the normalizer is \<^verbatim>\<open>String.prototype.toUpperCase\<close>.\<close>

definition getRawEventType_base :: "even_hub_event \<Rightarrow> jsval" where
  "getRawEventType_base event =
     nullishChain
       [case listEvent event of None \<Rightarrow> JUndefined | Some l \<Rightarrow> le_eventType l,
        case textEvent event of None \<Rightarrow> JUndefined | Some t \<Rightarrow> te_eventType t,
        case sysEvent event of None \<Rightarrow> JUndefined | Some y \<Rightarrow> se_eventType y,
        ev_eventType event,
        rawOf event ''eventType'',
        rawOf event ''event_type'',
        rawOf event ''Event_Type'',
        rawOf event ''type'']"

fun normalizeEventType_base ::
  "(string \<Rightarrow> string) \<Rightarrow> jsval \<Rightarrow> OsEventTypeList option" where
  "normalizeEventType_base up (JNumber n) =
     (if n = Num 0 then Some CLICK_EVENT
      else if n = Num 1 then Some SCROLL_TOP_EVENT
      else if n = Num 2 then Some SCROLL_BOTTOM_EVENT
      else if n = Num 3 then Some DOUBLE_CLICK_EVENT
      else None)"
| "normalizeEventType_base up (JString s) =
     (let v = up s in
      if includesStr v ''DOUBLE'' then Some DOUBLE_CLICK_EVENT
      else if includesStr v ''CLICK'' then Some CLICK_EVENT
      else if includesStr v ''SCROLL_TOP'' \<or> includesStr v ''UP'' then Some SCROLL_TOP_EVENT
      else if includesStr v ''SCROLL_BOTTOM'' \<or> includesStr v ''DOWN'' then Some SCROLL_BOTTOM_EVENT
      else None)"
| "normalizeEventType_base up v = None"

subsection \<open>Event decoder and normalizer of the REST-API application\<close>

definition getRawEventType_rest :: "even_hub_event \<Rightarrow> jsval" where
  "getRawEventType_rest event =
     nullishChain
       [case listEvent event of None \<Rightarrow> JUndefined | Some l \<Rightarrow> le_eventType l,
        case textEvent event of None \<Rightarrow> JUndefined | Some t \<Rightarrow> te_eventType t,
        case sysEvent event of None \<Rightarrow> JUndefined | Some y \<Rightarrow> se_eventType y,
        ev_eventType event,
        rawOf event ''eventType'',
        rawOf event ''event_type'',
        rawOf event ''Event_Type'',
        rawOf event ''type'']"

fun normalizeEventType_rest ::
  "(string \<Rightarrow> string) \<Rightarrow> jsval \<Rightarrow> OsEventTypeList option" where
  "normalizeEventType_rest up (JNumber n) =
     (if n = Num 0 then Some CLICK_EVENT
      else if n = Num 1 then Some SCROLL_TOP_EVENT
      else if n = Num 2 then Some SCROLL_BOTTOM_EVENT
      else if n = Num 3 then Some DOUBLE_CLICK_EVENT
      else None)"
| "normalizeEventType_rest up (JString s) =
     (let v = up s in
      if includesStr v ''DOUBLE'' then Some DOUBLE_CLICK_EVENT
      else if includesStr v ''CLICK'' then Some CLICK_EVENT
      else if includesStr v ''SCROLL_TOP'' \<or> includesStr v ''UP'' then Some SCROLL_TOP_EVENT
      else if includesStr v ''SCROLL_BOTTOM'' \<or> includesStr v ''DOWN'' then Some SCROLL_BOTTOM_EVENT
      else None)"
| "normalizeEventType_rest up v = None"

text \<open>The notions the specification uses for the string domain. \<open>occursIn p t\<close>: the
  string \<open>p\<close> is a substring of \<open>t\<close>. \<open>containsIgnoringCase s p\<close>: some substring of \<open>s\<close>
  equals \<open>p\<close> up to the case of its letters a to z.\<close>

definition occursIn :: "string \<Rightarrow> string \<Rightarrow> bool" where
  "occursIn p t = (\<exists>a b. t = a @ p @ b)"

definition containsIgnoringCase :: "string \<Rightarrow> string \<Rightarrow> bool" where
  "containsIgnoringCase s p = (\<exists>a m b. s = a @ m @ b \<and> toUpperCase m = toUpperCase p)"

text \<open>
  What the statement about strings that contain "double" needs of the platform's
  \<^verbatim>\<open>toUpperCase\<close>: a non-empty run of the letters a to z and A to Z is upper-cased in
  place, whatever surrounds it. The platform's function maps each character on its own
  and maps these letters to A to Z, and such a run cannot share a character with its
  neighbours, so it has this property.
\<close>

definition isAsciiLetter :: "char \<Rightarrow> bool" where
  "isAsciiLetter c =
     (c \<in> set ''abcdefghijklmnopqrstuvwxyz'' \<or> c \<in> set ''ABCDEFGHIJKLMNOPQRSTUVWXYZ'')"

definition upperCasesLetterRuns :: "(string \<Rightarrow> string) \<Rightarrow> bool" where
  "upperCasesLetterRuns up =
     (\<forall>a m b. m \<noteq> [] \<and> (\<forall>c\<in>set m. isAsciiLetter c)
        \<longrightarrow> up (a @ m @ b) = up a @ toUpperCase m @ up b)"

section \<open>The base application\<close>

definition THEME_OPTIONS :: "string list" where
  "THEME_OPTIONS = [''Blue'', ''Green'', ''Orange'']"

record template_state =
  counter :: int
  active :: bool
  selectedTheme :: int
  lastEvent :: string

definition initial_state :: template_state where
  "initial_state = \<lparr>counter = 0, active = False, selectedTheme = 0, lastEvent = ''none''\<rparr>"

definition clampThemeIndex :: "int \<Rightarrow> int" where
  "clampThemeIndex index = max 0 (min (int (length THEME_OPTIONS) - 1) index)"

definition getEventTypeLabel :: "OsEventTypeList option \<Rightarrow> string" where
  "getEventTypeLabel t =
     (case t of
        Some CLICK_EVENT \<Rightarrow> ''click''
      | Some DOUBLE_CLICK_EVENT \<Rightarrow> ''double-click''
      | Some SCROLL_TOP_EVENT \<Rightarrow> ''scroll-up''
      | Some SCROLL_BOTTOM_EVENT \<Rightarrow> ''scroll-down''
      | None \<Rightarrow> ''unknown'')"

subsection \<open>Selection resolver\<close>

definition parseIndex :: "jsval \<Rightarrow> jsnum" where
  "parseIndex v = (case v of JNumber n \<Rightarrow> n | JString s \<Rightarrow> parseInt10 s | _ \<Rightarrow> Num (- 1))"

definition normalizeName :: "jsval \<Rightarrow> string" where
  "normalizeName v = (case v of JString s \<Rightarrow> toLowerCase (trim s) | _ \<Rightarrow> [])"

text \<open>The test \<^verbatim>\<open>Number.isFinite(p) && p >= 0 && p < THEME_OPTIONS.length\<close>.\<close>

definition acceptedIndex :: "jsnum \<Rightarrow> bool" where
  "acceptedIndex p = (case p of Num i \<Rightarrow> 0 \<le> i \<and> i < int (length THEME_OPTIONS) | NaN \<Rightarrow> False)"

definition numValue :: "jsnum \<Rightarrow> int" where
  "numValue p = (case p of Num i \<Rightarrow> i | NaN \<Rightarrow> 0)"

definition indexFromList :: "even_hub_event \<Rightarrow> jsval" where
  "indexFromList event =
     (case listEvent event of None \<Rightarrow> JUndefined | Some l \<Rightarrow> currentSelectItemIndex l)"

definition indexFromRaw :: "even_hub_event \<Rightarrow> jsval" where
  "indexFromRaw event =
     nullishChain
       [rawOf event ''currentSelectItemIndex'',
        rawOf event ''current_select_item_index'',
        rawOf event ''currentSelectedIndex'',
        rawOf event ''current_selected_index'']"

definition nameFromList :: "even_hub_event \<Rightarrow> jsval" where
  "nameFromList event =
     (case listEvent event of None \<Rightarrow> JUndefined | Some l \<Rightarrow> currentSelectItemName l)"

definition nameFromRaw :: "even_hub_event \<Rightarrow> jsval" where
  "nameFromRaw event =
     nullishChain
       [rawOf event ''currentSelectItemName'',
        rawOf event ''current_select_item_name'',
        rawOf event ''currentSelectedName'',
        rawOf event ''current_selected_name'']"

text \<open>\<^verbatim>\<open>normalizeName(nameFromList) || normalizeName(nameFromRaw)\<close>: the empty string is
  falsy.\<close>

definition incomingNameOf :: "even_hub_event \<Rightarrow> string" where
  "incomingNameOf event =
     (if normalizeName (nameFromList event) \<noteq> [] then normalizeName (nameFromList event)
      else normalizeName (nameFromRaw event))"

definition byExactName :: "string \<Rightarrow> int" where
  "byExactName incomingName = findIndex (\<lambda>name. toLowerCase name = incomingName) THEME_OPTIONS"

definition byPrefix :: "string \<Rightarrow> int" where
  "byPrefix incomingName =
     findIndex (\<lambda>name. startsWith incomingName (toLowerCase name)) THEME_OPTIONS"

definition parseIncomingThemeIndex :: "even_hub_event \<Rightarrow> int" where
  "parseIncomingThemeIndex event =
     (let parsed = parseIndex (indexFromList event) in
      if acceptedIndex parsed then numValue parsed
      else
        let parsedRaw = parseIndex (indexFromRaw event) in
        if acceptedIndex parsedRaw then numValue parsedRaw
        else
          let incomingName = incomingNameOf event in
          if incomingName \<noteq> [] then
            (if byExactName incomingName \<ge> 0 then byExactName incomingName
             else if byPrefix incomingName \<ge> 0 then byPrefix incomingName
             else - 1)
          else - 1)"

subsection \<open>State reconciler\<close>

definition updateStateFromHubSelection ::
  "even_hub_event \<Rightarrow> OsEventTypeList option \<Rightarrow> template_state \<Rightarrow> template_state" where
  "updateStateFromHubSelection event eventType st =
     (let incomingIndex = parseIncomingThemeIndex event;
          hasIncomingIndex = (incomingIndex \<ge> 0 \<and> incomingIndex < int (length THEME_OPTIONS));
          hasListEvent = (listEvent event \<noteq> None)
      in
      if eventType = Some SCROLL_TOP_EVENT then
        st\<lparr>selectedTheme :=
             (if hasIncomingIndex then clampThemeIndex incomingIndex
              else clampThemeIndex (selectedTheme st - 1))\<rparr>
      else if eventType = Some SCROLL_BOTTOM_EVENT then
        st\<lparr>selectedTheme :=
             (if hasIncomingIndex then clampThemeIndex incomingIndex
              else clampThemeIndex (selectedTheme st + 1))\<rparr>
      else if eventType = Some CLICK_EVENT then
        st\<lparr>selectedTheme := (if hasIncomingIndex then clampThemeIndex incomingIndex else 0)\<rparr>
      else if eventType = None \<and> hasListEvent then
        (let s1 = st\<lparr>selectedTheme :=
                       (if hasIncomingIndex then clampThemeIndex incomingIndex else 0)\<rparr>
         in if \<not> hasIncomingIndex then s1\<lparr>lastEvent := ''glasses: list-fallback -> Blue''\<rparr>
            else s1)
      else if hasIncomingIndex then st\<lparr>selectedTheme := clampThemeIndex incomingIndex\<rparr>
      else st)"

text \<open>The listener registered with \<^verbatim>\<open>sdk.addEventListener\<close>. It then logs, renders the
  browser panel and starts a remote render; none of these writes the state record.\<close>

definition onHubEvent :: "even_hub_event \<Rightarrow> template_state \<Rightarrow> template_state" where
  "onHubEvent event st =
     (let eventType = normalizeEventType_base toUpperCase (getRawEventType_base event);
          s1 = updateStateFromHubSelection event eventType st;
          s2 = (case eventType of
                  Some CLICK_EVENT \<Rightarrow> s1\<lparr>active := \<not> active s1\<rparr>
                | Some DOUBLE_CLICK_EVENT \<Rightarrow> s1\<lparr>counter := 0, active := False\<rparr>
                | _ \<Rightarrow> s1)
      in s2\<lparr>lastEvent := ''glasses: '' @ getEventTypeLabel eventType\<rparr>)"

subsection \<open>Browser panel\<close>

definition getCurrentTheme :: "template_state \<Rightarrow> string" where
  "getCurrentTheme st = THEME_OPTIONS ! nat (clampThemeIndex (selectedTheme st))"

definition getPreviewBackground :: "string \<Rightarrow> bool \<Rightarrow> string" where
  "getPreviewBackground theme act =
     (let alpha = (if act then ''0.95'' else ''0.45'') in
      if theme = ''Green'' then
        ''linear-gradient(135deg, rgba(12, 90, 46, '' @ alpha @ ''), rgba(27, 140, 90, ''
          @ alpha @ ''))''
      else if theme = ''Orange'' then
        ''linear-gradient(135deg, rgba(125, 56, 12, '' @ alpha @ ''), rgba(185, 92, 34, ''
          @ alpha @ ''))''
      else
        ''linear-gradient(135deg, rgba(18, 64, 130, '' @ alpha @ ''), rgba(40, 120, 202, ''
          @ alpha @ ''))'')"

text \<open>What \<^verbatim>\<open>renderBrowserPanel\<close> writes into the panel. The counter and the bar width
  are kept as numbers (the source prints them).\<close>

record panel_view =
  counterValue :: int
  stateValue :: string
  themeValue :: string
  lastEventValue :: string
  previewBackground :: string
  barWidthPercent :: int

definition renderBrowserPanel :: "bool \<Rightarrow> template_state \<Rightarrow> panel_view option" where
  "renderBrowserPanel browserUi st =
     (if \<not> browserUi then None
      else
        let theme = getCurrentTheme st;
            normalizedCounter = max 0 (min 100 (counter st))
        in Some \<lparr>counterValue = counter st,
                 stateValue = (if active st then ''active'' else ''idle''),
                 themeValue = theme,
                 lastEventValue = lastEvent st,
                 previewBackground = getPreviewBackground theme (active st),
                 barWidthPercent = normalizedCounter\<rparr>)"

subsection \<open>Remote rendering\<close>

text \<open>
  The remote display is an external collaborator. A call to it is recorded as a request
  in a trace; what it answers is an input of the model: \<^verbatim>\<open>page.render()\<close> resolves or
  rejects, \<^verbatim>\<open>updateWithEvenHubSdk()\<close> resolves to a boolean or rejects. A rejected
  promise is the exception that the awaiting function propagates.
\<close>

datatype failure = TimedOut | AcquisitionFailed | RemoteFailure | MissingAppRoot

datatype remote_request = PageRender | UpdateStateText | UpdateCounterText

datatype update_answer = Updated | NotUpdated | UpdateRejected

record remote_answers =
  renderResolves :: bool
  stateTextAnswer :: update_answer
  counterTextAnswer :: update_answer

text \<open>\<^verbatim>\<open>syncToGlasses\<close> of the bridge client; the flag is the closure variable
  \<^verbatim>\<open>startupRendered\<close>. The result is the trace, the new flag and the outcome.\<close>

definition syncToGlasses ::
  "remote_answers \<Rightarrow> bool \<Rightarrow> remote_request list \<times> bool \<times> (failure + unit)" where
  "syncToGlasses env startupRendered =
     (if \<not> startupRendered then
        (if renderResolves env then ([PageRender], True, Inr ())
         else ([PageRender], startupRendered, Inl RemoteFailure))
      else if stateTextAnswer env = UpdateRejected then
        ([UpdateStateText], startupRendered, Inl RemoteFailure)
      else if counterTextAnswer env = UpdateRejected then
        ([UpdateStateText, UpdateCounterText], startupRendered, Inl RemoteFailure)
      else if stateTextAnswer env \<noteq> Updated \<or> counterTextAnswer env \<noteq> Updated then
        (if renderResolves env then
           ([UpdateStateText, UpdateCounterText, PageRender], startupRendered, Inr ())
         else
           ([UpdateStateText, UpdateCounterText, PageRender], startupRendered,
            Inl RemoteFailure))
      else ([UpdateStateText, UpdateCounterText], startupRendered, Inr ()))"

subsection \<open>Template clients and the bridge availability detector\<close>

datatype surface_mode = Bridge | Mock

text \<open>A \<^verbatim>\<open>TemplateClient\<close>: the bridge client carries its \<^verbatim>\<open>startupRendered\<close> flag.\<close>

datatype template_client = BridgeClient bool | MockClient

definition clientMode :: "template_client \<Rightarrow> surface_mode" where
  "clientMode c = (case c of BridgeClient f \<Rightarrow> Bridge | MockClient \<Rightarrow> Mock)"

definition clientSync ::
  "remote_answers \<Rightarrow> template_client \<Rightarrow>
     remote_request list \<times> template_client \<times> (failure + unit)" where
  "clientSync env c =
     (case c of
        MockClient \<Rightarrow> ([], MockClient, Inr ())
      | BridgeClient f \<Rightarrow>
          (case syncToGlasses env f of (trace, f', res) \<Rightarrow> (trace, BridgeClient f', res)))"

text \<open>\<^verbatim>\<open>start()\<close>: the bridge client renders, the mock client only writes a log line.\<close>

definition clientStart ::
  "remote_answers \<Rightarrow> template_client \<Rightarrow>
     remote_request list \<times> template_client \<times> (failure + unit)" where
  "clientStart env c = clientSync env c"

text \<open>
  The acquisition of the bridge handle is a promise of the SDK: it resolves with a handle
  or rejects at some time (in milliseconds after the call), or never settles.
  \<^verbatim>\<open>withTimeout\<close> races it against a timer of \<open>timeoutMs\<close> milliseconds that is started
  after the acquisition; the promise wins when it settles no later than the timer fires,
  the timer otherwise.
\<close>

datatype 'h acquisition = Resolves nat 'h | Rejects nat | NeverSettles

definition withTimeout :: "'h acquisition \<Rightarrow> nat \<Rightarrow> failure + 'h" where
  "withTimeout promise timeoutMs =
     (case promise of
        Resolves t h \<Rightarrow> if t \<le> timeoutMs then Inr h else Inl TimedOut
      | Rejects t \<Rightarrow> if t \<le> timeoutMs then Inl AcquisitionFailed else Inl TimedOut
      | NeverSettles \<Rightarrow> Inl TimedOut)"

text \<open>\<^verbatim>\<open>initTemplate\<close>: the argument \<open>templateClient\<close> is the module variable; the result
  is the new value of that variable and the client returned to the caller. The
  \<^verbatim>\<open>catch\<close> turns every failure of the body into the mock client.\<close>

definition initTemplate ::
  "nat \<Rightarrow> 'h acquisition \<Rightarrow> template_client option \<Rightarrow>
     failure + (template_client option \<times> template_client)" where
  "initTemplate timeoutMs promise templateClient =
     (case withTimeout promise timeoutMs of
        Inr h \<Rightarrow>
          (case templateClient of
             Some (BridgeClient f) \<Rightarrow> Inr (Some (BridgeClient f), BridgeClient f)
           | _ \<Rightarrow> Inr (Some (BridgeClient False), BridgeClient False))
      | Inl e \<Rightarrow> Inr (templateClient, MockClient))"

record connect_result =
  clientAfter :: "template_client option"
  requests :: "remote_request list"
  status :: string

text \<open>The \<^verbatim>\<open>connect\<close> action of the base application, with the default timeout.\<close>

definition connect ::
  "remote_answers \<Rightarrow> 'h acquisition \<Rightarrow> template_client option \<Rightarrow> connect_result" where
  "connect env promise templateClient =
     (case initTemplate 4000 promise templateClient of
        Inl e \<Rightarrow>
          \<lparr>clientAfter = templateClient, requests = [],
           status = ''Base template: connection failed''\<rparr>
      | Inr (tc, template) \<Rightarrow>
          (case clientStart env template of
             (trace, template', Inl e) \<Rightarrow>
               \<lparr>clientAfter = Some template', requests = trace,
                status = ''Base template: connection failed''\<rparr>
           | (trace, template', Inr u) \<Rightarrow>
               \<lparr>clientAfter = Some template', requests = trace,
                status =
                  (if clientMode template = Bridge then
                     ''Base template: connected. Web panel + glasses view are synchronized.''
                   else
                     ''Base template: bridge unavailable. Running browser-only mock mode.'')\<rparr>))"

text \<open>\<^verbatim>\<open>state.counter += 1\<close>. The counter is a double that holds an integer from 0 to
  \<open>2^53\<close>: it starts at 0 and changes by one or is reset. Below \<open>2^53\<close> the addition is
  exact; \<open>2^53 + 1\<close> is rounded back to \<open>2^53\<close>, where the counter stays.\<close>

definition counterPlusOne :: "int \<Rightarrow> int" where
  "counterPlusOne c = (if c < 9007199254740992 then c + 1 else c)"

text \<open>The \<^verbatim>\<open>action\<close> of the base application: the state, the panel and the trace of
  remote requests after it; \<open>Inl\<close> when the remote render rejects.\<close>

definition action ::
  "remote_answers \<Rightarrow> bool \<Rightarrow> template_client option \<Rightarrow> template_state \<Rightarrow>
     template_state \<times> template_client option \<times> panel_view option \<times> remote_request list
       \<times> (failure + string)" where
  "action env browserUi templateClient st =
     (case templateClient of
        None \<Rightarrow> (st, None, None, [], Inr ''Base template: not connected'')
      | Some c \<Rightarrow>
          (let st' = st\<lparr>counter := counterPlusOne (counter st),
                       lastEvent := ''web: main action button''\<rparr>;
               view = renderBrowserPanel browserUi st'
           in case clientSync env c of
                (trace, c', Inl e) \<Rightarrow> (st', Some c', view, trace, Inl e)
              | (trace, c', Inr u) \<Rightarrow>
                  (st', Some c', view, trace,
                   Inr ''Base template: counter incremented and synced.'')))"

section \<open>The REST-API application\<close>

definition DEFAULT_URLS :: "string list" where
  "DEFAULT_URLS =
     [''http://livingkitchen.local/rest/system/clock'',
      ''http://livingkitchen.local/rest/rgb/toggle'']"

definition clampIndex :: "int \<Rightarrow> int \<Rightarrow> int" where
  "clampIndex index len = (if len \<le> 0 then 0 else max 0 (min (len - 1) index))"

definition toListLabel :: "string \<Rightarrow> string" where
  "toListLabel url = (if length url \<le> 62 then url else take 59 url @ ''...'')"

text \<open>
  The state of the module: the record \<^verbatim>\<open>bridgeState\<close> (\<open>bridge\<close> to \<open>runnerSet\<close>, the
  last being whether \<^verbatim>\<open>onSelectAndRun\<close> holds a runner), the variable
  \<^verbatim>\<open>bridgeDisplay\<close> (\<open>None\<close> for \<^verbatim>\<open>null\<close>), and the \<^verbatim>\<open>select\<close> element of the
  browser: its option values in order and its \<^verbatim>\<open>selectedIndex\<close>. \<open>activeSelect\<close> says
  whether \<^verbatim>\<open>activeSelectEl\<close> is set; it is set to the same element as \<^verbatim>\<open>ui.select\<close>.
\<close>

record rest_state =
  bridge :: "nat option"
  startupRendered :: bool
  eventLoopRegistered :: bool
  selectedIndex :: int
  statusMessage :: string
  runnerSet :: bool
  bridgeDisplay :: "surface_mode option"
  activeSelect :: bool
  options :: "string list"
  domSelectedIndex :: int

definition initial_rest_state :: rest_state where
  "initial_rest_state =
     \<lparr>bridge = None, startupRendered = False, eventLoopRegistered = False,
      selectedIndex = 0, statusMessage = ''Select URL and click'', runnerSet = False,
      bridgeDisplay = None, activeSelect = False, options = [], domSelectedIndex = - 1\<rparr>"

subsection \<open>The select element\<close>

text \<open>
  The operations of a single-choice drop-down \<^verbatim>\<open>select\<close> element, as the browser
  performs them: appending to an element with no selected option selects the first
  option; removing the selected option selects the first remaining one; assigning
  \<^verbatim>\<open>value\<close> selects the first option with that value, or none; assigning an index out of
  range selects none (\<open>-1\<close>).
\<close>

definition selectAppend :: "string \<Rightarrow> rest_state \<Rightarrow> rest_state" where
  "selectAppend v st =
     st\<lparr>options := options st @ [v],
        domSelectedIndex := (if domSelectedIndex st < 0 then 0 else domSelectedIndex st)\<rparr>"

definition selectSetValue :: "string \<Rightarrow> rest_state \<Rightarrow> rest_state" where
  "selectSetValue v st = st\<lparr>domSelectedIndex := indexOf (options st) v\<rparr>"

definition selectSetIndex :: "int \<Rightarrow> rest_state \<Rightarrow> rest_state" where
  "selectSetIndex k st =
     st\<lparr>domSelectedIndex := (if 0 \<le> k \<and> k < int (length (options st)) then k else - 1)\<rparr>"

definition selectRemove :: "int \<Rightarrow> rest_state \<Rightarrow> rest_state" where
  "selectRemove k st =
     (if 0 \<le> k \<and> k < int (length (options st)) then
        let rest = take (nat k) (options st) @ drop (nat k + 1) (options st) in
        st\<lparr>options := rest,
           domSelectedIndex :=
             (if domSelectedIndex st = k then (if rest = [] then - 1 else 0)
              else if k < domSelectedIndex st then domSelectedIndex st - 1
              else domSelectedIndex st)\<rparr>
      else st)"

definition selectValue :: "rest_state \<Rightarrow> string" where
  "selectValue st =
     (if 0 \<le> domSelectedIndex st \<and> domSelectedIndex st < int (length (options st))
      then options st ! nat (domSelectedIndex st) else [])"

definition ensureOption :: "string \<Rightarrow> rest_state \<Rightarrow> rest_state" where
  "ensureOption url st =
     (let trimmed = trim url in
      if trimmed = [] then st
      else if trimmed \<in> set (options st) then st
      else selectAppend trimmed st)"

definition selectedUrl :: "rest_state \<Rightarrow> string" where
  "selectedUrl st = trim (selectValue st)"

definition getAllUrls :: "rest_state \<Rightarrow> string list" where
  "getAllUrls st = options st"

definition getActiveUrls :: "rest_state \<Rightarrow> string list" where
  "getActiveUrls st = (if \<not> activeSelect st then DEFAULT_URLS else getAllUrls st)"

subsection \<open>Remote page\<close>

record page_config =
  itemName :: "string list"
  currentSelectedItem :: int
  statusContent :: string

datatype bridge_request =
  CreateStartUpPageContainer page_config | RebuildPageContainer page_config

text \<open>The configuration that \<^verbatim>\<open>renderBridgePage\<close> builds from its arguments.\<close>

definition pageConfigOf :: "string list \<Rightarrow> int \<Rightarrow> string \<Rightarrow> page_config" where
  "pageConfigOf urls sel msg =
     (let safeUrls = (if length urls > 0 then urls else [''No URL configured'']);
          safeSelected = clampIndex sel (int (length safeUrls))
      in \<lparr>itemName = map toListLabel safeUrls,
          currentSelectedItem = safeSelected,
          statusContent = msg\<rparr>)"

text \<open>\<^verbatim>\<open>renderBridgePage\<close>; \<open>resolves\<close> says whether the awaited call of the bridge
  resolves.\<close>

definition renderBridgePage ::
  "bool \<Rightarrow> string list \<Rightarrow> int \<Rightarrow> string \<Rightarrow> rest_state \<Rightarrow>
     bridge_request list \<times> rest_state \<times> (failure + unit)" where
  "renderBridgePage resolves urls sel msg st =
     (let config = pageConfigOf urls sel msg in
      if \<not> startupRendered st then
        (if resolves then ([CreateStartUpPageContainer config], st\<lparr>startupRendered := True\<rparr>, Inr ())
         else ([CreateStartUpPageContainer config], st, Inl RemoteFailure))
      else
        (if resolves then ([RebuildPageContainer config], st, Inr ())
         else ([RebuildPageContainer config], st, Inl RemoteFailure)))"

subsection \<open>Displays\<close>

text \<open>The methods \<^verbatim>\<open>show\<close> and \<^verbatim>\<open>renderList\<close> of the display held in
  \<^verbatim>\<open>bridgeDisplay\<close>: those of \<^verbatim>\<open>getBridgeDisplay\<close> and of \<^verbatim>\<open>getMockBridgeDisplay\<close>.\<close>

definition bridgeShow ::
  "bool \<Rightarrow> string \<Rightarrow> rest_state \<Rightarrow> bridge_request list \<times> rest_state \<times> (failure + unit)" where
  "bridgeShow resolves message st =
     (let urls = getActiveUrls st;
          st1 = st\<lparr>statusMessage := message\<rparr>
      in renderBridgePage resolves urls (selectedIndex st1) (statusMessage st1) st1)"

definition bridgeRenderList ::
  "bool \<Rightarrow> string list \<Rightarrow> int \<Rightarrow> string option \<Rightarrow> rest_state \<Rightarrow>
     bridge_request list \<times> rest_state \<times> (failure + unit)" where
  "bridgeRenderList resolves urls sel msg st =
     (let st1 = st\<lparr>selectedIndex := clampIndex sel (int (length urls))\<rparr>;
          st2 = (case msg of
                   Some m \<Rightarrow> if m \<noteq> [] then st1\<lparr>statusMessage := m\<rparr> else st1
                 | None \<Rightarrow> st1)
      in renderBridgePage resolves urls (selectedIndex st2) (statusMessage st2) st2)"

definition displayShow ::
  "surface_mode \<Rightarrow> bool \<Rightarrow> string \<Rightarrow> rest_state \<Rightarrow>
     bridge_request list \<times> rest_state \<times> (failure + unit)" where
  "displayShow m resolves message st =
     (case m of Mock \<Rightarrow> ([], st, Inr ()) | Bridge \<Rightarrow> bridgeShow resolves message st)"

definition displayRenderList ::
  "surface_mode \<Rightarrow> bool \<Rightarrow> string list \<Rightarrow> int \<Rightarrow> string option \<Rightarrow> rest_state \<Rightarrow>
     bridge_request list \<times> rest_state \<times> (failure + unit)" where
  "displayRenderList m resolves urls sel msg st =
     (case m of
        Mock \<Rightarrow> ([], st, Inr ())
      | Bridge \<Rightarrow> bridgeRenderList resolves urls sel msg st)"

definition displayOnSelectAndRun :: "surface_mode \<Rightarrow> rest_state \<Rightarrow> rest_state" where
  "displayOnSelectAndRun m st = (case m of Mock \<Rightarrow> st | Bridge \<Rightarrow> st\<lparr>runnerSet := True\<rparr>)"

subsection \<open>Bridge availability detector\<close>

definition registerBridgeEvents :: "rest_state \<Rightarrow> rest_state" where
  "registerBridgeEvents st =
     (if eventLoopRegistered st then st else st\<lparr>eventLoopRegistered := True\<rparr>)"

definition initBridgeDisplay ::
  "nat \<Rightarrow> nat acquisition \<Rightarrow> rest_state \<Rightarrow> failure + (rest_state \<times> surface_mode)" where
  "initBridgeDisplay timeoutMs promise st =
     (case withTimeout promise timeoutMs of
        Inr h \<Rightarrow>
          (let st1 = registerBridgeEvents (st\<lparr>bridge := Some h\<rparr>);
               st2 = (if bridgeDisplay st1 \<noteq> Some Bridge
                      then st1\<lparr>bridgeDisplay := Some Bridge\<rparr> else st1)
           in Inr (st2, Bridge))
      | Inl e \<Rightarrow>
          Inr (st\<lparr>bridge := None, startupRendered := False,
                  statusMessage := ''Select URL and click'',
                  bridgeDisplay := Some Mock\<rparr>, Mock))"

subsection \<open>Selection steps\<close>

definition syncBrowserSelection :: "int \<Rightarrow> rest_state \<Rightarrow> rest_state" where
  "syncBrowserSelection index st =
     (if \<not> activeSelect st then st
      else
        let urls = getAllUrls st in
        if length urls = 0 then st
        else
          let clamped = clampIndex index (int (length urls)) in
          (selectSetIndex clamped st)\<lparr>selectedIndex := clamped\<rparr>)"

text \<open>The part of \<^verbatim>\<open>runRequestByIndex\<close> that writes the selection; it runs before the
  first \<^verbatim>\<open>await\<close> of the runner. The rest of the runner fetches the URL and shows the
  response; it writes the status message and the render flag, not the selection.\<close>

definition runRequestSelection :: "int \<Rightarrow> rest_state \<Rightarrow> rest_state" where
  "runRequestSelection index st =
     (let urls = getAllUrls st in
      if length urls = 0 then st
      else
        let clamped = clampIndex index (int (length urls)) in
        (selectSetIndex clamped st)\<lparr>selectedIndex := clamped\<rparr>)"

definition runIfSet :: "rest_state \<Rightarrow> rest_state" where
  "runIfSet st = (if runnerSet st then runRequestSelection (selectedIndex st) st else st)"

definition updateBridgeListFromBrowserSelect ::
  "bool \<Rightarrow> rest_state \<Rightarrow> bridge_request list \<times> rest_state" where
  "updateBridgeListFromBrowserSelect resolves st =
     (if bridgeDisplay st \<noteq> Some Bridge then ([], st)
      else
        let urls = getAllUrls st;
            sel = clampIndex (domSelectedIndex st) (int (length urls));
            st1 = st\<lparr>selectedIndex := sel\<rparr>
        in case bridgeRenderList resolves urls sel None st1 of
             (trace, st2, res) \<Rightarrow> (trace, st2))"

text \<open>The handlers bound by \<^verbatim>\<open>bindUiEvents\<close>. \<open>selectOnChange k\<close> is the user choosing
  row \<open>k\<close> of the drop-down, which fires \<^verbatim>\<open>onchange\<close>.\<close>

definition selectOnChange :: "bool \<Rightarrow> int \<Rightarrow> rest_state \<Rightarrow> bridge_request list \<times> rest_state" where
  "selectOnChange resolves k st =
     (let st0 = selectSetIndex k st;
          urls = getAllUrls st0;
          st1 = st0\<lparr>selectedIndex := clampIndex (domSelectedIndex st0) (int (length urls))\<rparr>
      in updateBridgeListFromBrowserSelect resolves st1)"

definition addButtonOnClick ::
  "bool \<Rightarrow> string \<Rightarrow> rest_state \<Rightarrow> bridge_request list \<times> rest_state" where
  "addButtonOnClick resolves input st =
     (let inputUrl = trim input in
      if inputUrl = [] then ([], st)
      else
        let st1 = ensureOption inputUrl st;
            st2 = selectSetValue inputUrl st1
        in updateBridgeListFromBrowserSelect resolves st2)"

definition removeButtonOnClick :: "bool \<Rightarrow> rest_state \<Rightarrow> bridge_request list \<times> rest_state" where
  "removeButtonOnClick resolves st =
     (let current = selectedUrl st in
      if current = [] then ([], st)
      else
        let k = domSelectedIndex st;
            st1 = selectRemove k st;
            st2 = (if length (options st1) > 0 then selectSetIndex (max 0 (k - 1)) st1 else st1)
        in updateBridgeListFromBrowserSelect resolves st2)"

text \<open>\<^verbatim>\<open>ensureUi\<close> throws when the page has no \<^verbatim>\<open>#app\<close> root (\<open>appRoot\<close> says
  whether it has one). Otherwise it creates the controls on the first call, with the
  default URLs as options, and returns the existing controls afterwards.\<close>

definition ensureUi :: "bool \<Rightarrow> rest_state \<Rightarrow> failure + rest_state" where
  "ensureUi appRoot st =
     (if \<not> appRoot then Inl MissingAppRoot
      else if activeSelect st then Inr st
      else Inr (fold ensureOption DEFAULT_URLS st))"

text \<open>The \<^verbatim>\<open>connect\<close> action of the REST-API application; it has no handler for
  exceptions, so a failure of \<^verbatim>\<open>ensureUi\<close> or of the first render is its result.\<close>

definition restConnect ::
  "bool \<Rightarrow> bool \<Rightarrow> nat acquisition \<Rightarrow> rest_state \<Rightarrow>
     bridge_request list \<times> rest_state \<times> (failure + surface_mode)" where
  "restConnect resolves appRoot promise st =
     (case ensureUi appRoot st of
        Inl e \<Rightarrow> ([], st, Inl e)
      | Inr ui \<Rightarrow>
          let st0 = ui\<lparr>activeSelect := True\<rparr> in
          case initBridgeDisplay 4000 promise st0 of
            Inl e \<Rightarrow> ([], st0, Inl e)
          | Inr (st1, m) \<Rightarrow>
              let st2 = displayOnSelectAndRun m st1;
                  urls = getAllUrls st2;
                  st3 = st2\<lparr>selectedIndex :=
                              clampIndex (domSelectedIndex st2) (int (length urls))\<rparr>
              in if m = Bridge then
                   (case bridgeRenderList resolves urls (selectedIndex st3)
                           (Some ''Select URL and click'') st3 of
                      (trace, st4, Inl e) \<Rightarrow> (trace, st4, Inl e)
                    | (trace, st4, Inr u) \<Rightarrow> (trace, st4, Inr Bridge))
                 else ([], st3, Inr Mock))"

subsection \<open>Events of the bridge in the REST-API application\<close>

text \<open>The comparisons of JavaScript numbers used by the listener; every comparison with
  \<^verbatim>\<open>NaN\<close> is false.\<close>

definition numLess :: "jsnum \<Rightarrow> int \<Rightarrow> bool" where
  "numLess p k = (case p of Num i \<Rightarrow> i < k | NaN \<Rightarrow> False)"

definition numGreater :: "jsnum \<Rightarrow> int \<Rightarrow> bool" where
  "numGreater p k = (case p of Num i \<Rightarrow> i > k | NaN \<Rightarrow> False)"

definition numAtLeast :: "jsnum \<Rightarrow> int \<Rightarrow> bool" where
  "numAtLeast p k = (case p of Num i \<Rightarrow> i \<ge> k | NaN \<Rightarrow> False)"

definition restIncomingIndex :: "even_hub_event \<Rightarrow> string list \<Rightarrow> jsnum" where
  "restIncomingIndex event urls =
     (let labels = map toListLabel urls;
          incomingIndexRaw = indexFromList event;
          incomingName = nameFromList event;
          incomingIndexByName =
            (case incomingName of JString n \<Rightarrow> Num (indexOf labels n) | _ \<Rightarrow> Num (- 1));
          parsedIncomingIndex =
            (case incomingIndexRaw of
               JNumber n \<Rightarrow> n
             | JString s \<Rightarrow> parseInt10 s
             | _ \<Rightarrow> incomingIndexByName)
      in if listEvent event \<noteq> None \<and> (parsedIncomingIndex = NaN \<or> numLess parsedIncomingIndex 0)
         then Num 0 else parsedIncomingIndex)"

definition restHasIncomingIndex :: "even_hub_event \<Rightarrow> string list \<Rightarrow> bool" where
  "restHasIncomingIndex event urls =
     (numAtLeast (restIncomingIndex event urls) 0
      \<and> numLess (restIncomingIndex event urls) (int (length urls)))"

text \<open>The event type after the inference for list events of unresolved type.\<close>

definition restEventType :: "even_hub_event \<Rightarrow> rest_state \<Rightarrow> OsEventTypeList option" where
  "restEventType event st =
     (let urls = getActiveUrls st;
          eventType = normalizeEventType_rest toUpperCase (getRawEventType_rest event);
          incomingIndex = restIncomingIndex event urls;
          hasIncomingIndex = restHasIncomingIndex event urls
      in if eventType = None \<and> listEvent event \<noteq> None then
           (if hasIncomingIndex \<and> numGreater incomingIndex (selectedIndex st)
              then Some SCROLL_BOTTOM_EVENT
            else if hasIncomingIndex \<and> numLess incomingIndex (selectedIndex st)
              then Some SCROLL_TOP_EVENT
            else Some CLICK_EVENT)
         else eventType)"

text \<open>The listener registered by \<^verbatim>\<open>registerBridgeEvents\<close>. The trace holds the requests
  of its own \<^verbatim>\<open>renderBridgePage\<close>; an exception of that call ends the listener.\<close>

definition onEvenHubEvent ::
  "bool \<Rightarrow> even_hub_event \<Rightarrow> rest_state \<Rightarrow>
     bridge_request list \<times> rest_state \<times> (failure + unit)" where
  "onEvenHubEvent resolves event st =
     (let urls = getActiveUrls st in
      if length urls = 0 then ([], st, Inr ())
      else
        let incomingIndex = numValue (restIncomingIndex event urls);
            hasIncomingIndex = restHasIncomingIndex event urls;
            eventType = restEventType event st
        in
        if eventType = Some SCROLL_BOTTOM_EVENT then
          (let previousIndex = selectedIndex st;
               st1 = st\<lparr>selectedIndex :=
                         clampIndex (if hasIncomingIndex then incomingIndex
                                     else selectedIndex st + 1) (int (length urls))\<rparr>;
               st2 = syncBrowserSelection (selectedIndex st1) st1
           in case renderBridgePage resolves urls (selectedIndex st2) (statusMessage st2) st2 of
                (trace, st3, Inl e) \<Rightarrow> (trace, st3, Inl e)
              | (trace, st3, Inr u) \<Rightarrow>
                  (trace, (if selectedIndex st3 \<noteq> previousIndex then runIfSet st3 else st3),
                   Inr ()))
        else if eventType = Some SCROLL_TOP_EVENT then
          (let previousIndex = selectedIndex st;
               st1 = st\<lparr>selectedIndex :=
                         clampIndex (if hasIncomingIndex then incomingIndex
                                     else selectedIndex st - 1) (int (length urls))\<rparr>;
               st2 = syncBrowserSelection (selectedIndex st1) st1
           in case renderBridgePage resolves urls (selectedIndex st2) (statusMessage st2) st2 of
                (trace, st3, Inl e) \<Rightarrow> (trace, st3, Inl e)
              | (trace, st3, Inr u) \<Rightarrow>
                  (trace, (if selectedIndex st3 \<noteq> previousIndex then runIfSet st3 else st3),
                   Inr ()))
        else if eventType = Some CLICK_EVENT \<or> (eventType = None \<and> listEvent event \<noteq> None) then
          (let selected = (if hasIncomingIndex then clampIndex incomingIndex (int (length urls))
                           else selectedIndex st);
               st1 = st\<lparr>selectedIndex := selected\<rparr>;
               st2 = syncBrowserSelection (selectedIndex st1) st1
           in ([], runIfSet st2, Inr ()))
        else ([], st, Inr ()))"

section \<open>Example inputs\<close>

definition emptyEvent :: even_hub_event where
  "emptyEvent =
     \<lparr>listEvent = None, textEvent = None, sysEvent = None, ev_eventType = JUndefined,
      jsonData = None\<rparr>"

definition emptyListEvent :: list_event where
  "emptyListEvent =
     \<lparr>le_eventType = JUndefined, currentSelectItemIndex = JUndefined,
      currentSelectItemName = JUndefined\<rparr>"

text \<open>A list event that carries neither a type nor an index nor a name.\<close>

definition bareListEvent :: even_hub_event where
  "bareListEvent = emptyEvent\<lparr>listEvent := Some emptyListEvent\<rparr>"

text \<open>A list event that carries only the name of the selected item.\<close>

definition listNameEvent :: "string \<Rightarrow> even_hub_event" where
  "listNameEvent n =
     emptyEvent\<lparr>listEvent := Some (emptyListEvent\<lparr>currentSelectItemName := JString n\<rparr>)\<rparr>"


definition scrollDownEvent :: even_hub_event where
  "scrollDownEvent = emptyEvent\<lparr>ev_eventType := JNumber (Num 2)\<rparr>"

definition allFine :: remote_answers where
  "allFine = \<lparr>renderResolves = True, stateTextAnswer = Updated, counterTextAnswer = Updated\<rparr>"

text \<open>Answers of the remote display in which the counter text cannot be updated in
  place.\<close>

definition counterNotUpdated :: remote_answers where
  "counterNotUpdated =
     \<lparr>renderResolves = True, stateTextAnswer = Updated, counterTextAnswer = NotUpdated\<rparr>"

text \<open>The REST-API application after a connect that found no bridge, and after a connect
  that found one.\<close>

definition restMockConnected :: rest_state where
  "restMockConnected = fst (snd (restConnect True True NeverSettles initial_rest_state))"

definition restBridgeConnected :: rest_state where
  "restBridgeConnected = fst (snd (restConnect True True (Resolves 10 1) initial_rest_state))"

text \<open>The REST-API application after a connect that found a bridge and a second connect
  that found none; with a bridge after the user chose the second URL; and
  without a bridge after the user chose the second URL, and then pressed "Remove
  Selected".\<close>

definition restReconnectFailed :: rest_state where
  "restReconnectFailed = fst (snd (restConnect True True NeverSettles restBridgeConnected))"


definition restMockPicked :: rest_state where
  "restMockPicked = snd (selectOnChange True 1 restMockConnected)"

definition restMockRemoved :: rest_state where
  "restMockRemoved = snd (removeButtonOnClick True restMockPicked)"

section \<open>The specification's reading of the prefix rule\<close>

text \<open>The specification words the fourth rule of the selection resolver as: the resolved
  name is a case-insensitive prefix of an option, the first such option in list order
  winning. This is that rule, for comparison with \<^const>\<open>byPrefix\<close>.\<close>

definition claimedPrefixIndex :: "string \<Rightarrow> int" where
  "claimedPrefixIndex incomingName =
     findIndex (\<lambda>name. startsWith (toLowerCase name) incomingName) THEME_OPTIONS"

section \<open>Properties of the decoder and the normalizer\<close>

lemma startsWith_iff: "startsWith s p \<longleftrightarrow> (\<exists>r. s = p @ r)"
  by (induction s p rule: startsWith.induct) auto

lemma includes_iff: "includesStr s p \<longleftrightarrow> (\<exists>a b. s = a @ p @ b)"
proof (induction s)
  case Nil
  then show ?case by auto
next
  case (Cons c cs)
  show ?case
  proof
    assume "includesStr (c # cs) p"
    then consider "startsWith (c # cs) p" | "includesStr cs p" by auto
    then show "\<exists>a b. c # cs = a @ p @ b"
    proof cases
      case 1
      then obtain r where "c # cs = p @ r" by (auto simp: startsWith_iff)
      then have "c # cs = [] @ p @ r" by simp
      then show ?thesis by blast
    next
      case 2
      then obtain a b where "cs = a @ p @ b" using Cons.IH by blast
      then have "c # cs = (c # a) @ p @ b" by simp
      then show ?thesis by blast
    qed
  next
    assume "\<exists>a b. c # cs = a @ p @ b"
    then obtain a b where ab: "c # cs = a @ p @ b" by blast
    show "includesStr (c # cs) p"
    proof (cases a)
      case Nil
      with ab have "startsWith (c # cs) p" by (auto simp: startsWith_iff)
      then show ?thesis by simp
    next
      case (Cons x a')
      with ab have "cs = a' @ p @ b" by simp
      then have "includesStr cs p" using Cons.IH by blast
      then show ?thesis by simp
    qed
  qed
qed

lemma includesStr_occursIn: "includesStr t p \<longleftrightarrow> occursIn p t"
  by (simp add: includes_iff occursIn_def)

lemma normalize_string_precedence:
  "normalizeEventType_base up (JString s) =
     (if occursIn ''DOUBLE'' (up s) then Some DOUBLE_CLICK_EVENT
      else if occursIn ''CLICK'' (up s) then Some CLICK_EVENT
      else if occursIn ''SCROLL_TOP'' (up s) \<or> occursIn ''UP'' (up s)
        then Some SCROLL_TOP_EVENT
      else if occursIn ''SCROLL_BOTTOM'' (up s) \<or> occursIn ''DOWN'' (up s)
        then Some SCROLL_BOTTOM_EVENT
      else None)"
  by (simp add: Let_def includesStr_occursIn)

lemma toUpperChar_letter:
  assumes "toUpperChar c \<in> set ''ABCDEFGHIJKLMNOPQRSTUVWXYZ''"
  shows "isAsciiLetter c"
proof (cases "map_of (zip ''abcdefghijklmnopqrstuvwxyz'' ''ABCDEFGHIJKLMNOPQRSTUVWXYZ'') c")
  case None
  then have "toUpperChar c = c" by (simp add: toUpperChar_def)
  with assms show ?thesis by (simp only: isAsciiLetter_def) blast
next
  case (Some u)
  then have "(c, u) \<in> set (zip ''abcdefghijklmnopqrstuvwxyz'' ''ABCDEFGHIJKLMNOPQRSTUVWXYZ'')"
    by (rule map_of_SomeD)
  then have "c \<in> set ''abcdefghijklmnopqrstuvwxyz''" by (rule set_zip_leftD)
  then show ?thesis by (simp only: isAsciiLetter_def) blast
qed

lemma letters_of_upper:
  assumes "set (toUpperCase m) \<subseteq> set ''ABCDEFGHIJKLMNOPQRSTUVWXYZ''"
  shows "\<forall>c\<in>set m. isAsciiLetter c"
proof
  fix c assume "c \<in> set m"
  then have "toUpperChar c \<in> set (toUpperCase m)" by (simp add: toUpperCase_def)
  with assms have "toUpperChar c \<in> set ''ABCDEFGHIJKLMNOPQRSTUVWXYZ''" by blast
  then show "isAsciiLetter c" by (rule toUpperChar_letter)
qed

lemma normalize_double_any_case:
  assumes runs: "upperCasesLetterRuns up"
    and dbl: "containsIgnoringCase s ''double''"
  shows "normalizeEventType_base up (JString s) = Some DOUBLE_CLICK_EVENT"
proof -
  have u: "toUpperCase ''double'' = ''DOUBLE''"
    by (simp add: toUpperCase_def toUpperChar_def)
  from dbl obtain a m b where s: "s = a @ m @ b" and m: "toUpperCase m = ''DOUBLE''"
    unfolding containsIgnoringCase_def u by blast
  from m have ne: "m \<noteq> []" by (auto simp: toUpperCase_def)
  have "set (toUpperCase m) \<subseteq> set ''ABCDEFGHIJKLMNOPQRSTUVWXYZ''"
    unfolding m by simp
  then have "\<forall>c\<in>set m. isAsciiLetter c" by (rule letters_of_upper)
  with runs ne have "up (a @ m @ b) = up a @ toUpperCase m @ up b"
    unfolding upperCasesLetterRuns_def by blast
  then have "up s = up a @ ''DOUBLE'' @ up b" using s m by simp
  then have "occursIn ''DOUBLE'' (up s)" unfolding occursIn_def by blast
  then show ?thesis unfolding normalize_string_precedence by simp
qed

lemma normalize_other_types:
  "(\<forall>n. v \<noteq> JNumber n) \<Longrightarrow> (\<forall>s. v \<noteq> JString s) \<Longrightarrow> normalizeEventType_base up v = None"
  by (cases v) simp_all

lemma toUpperCase_upperCasesLetterRuns: "upperCasesLetterRuns toUpperCase"
  by (simp add: upperCasesLetterRuns_def toUpperCase_def)

text \<open>
  Claim C4. For every \<^verbatim>\<open>toUpperCase\<close> of the platform (the parameter \<open>up\<close>), the
  normalizer of the base application maps the numbers \<open>0\<close>, \<open>1\<close>, \<open>2\<close>, \<open>3\<close> to Click,
  ScrollUp, ScrollDown and DoubleClick and every other number to Unknown (\<open>None\<close>). On a
  string it tests the upper-cased string, in this order, for the substrings DOUBLE, CLICK,
  SCROLL\_TOP or UP, SCROLL\_BOTTOM or DOWN, and yields Unknown when none occurs. When
  the upper-casing maps runs of the letters a to z and A to Z in place, as the
  platform's does, a string that contains both "double" and "click" in any case is a
  DoubleClick. A value of any other type is Unknown.
\<close>

theorem normalizeEventType_table_and_precedence:
  "normalizeEventType_base up (JNumber (Num 0)) = Some CLICK_EVENT
   \<and> normalizeEventType_base up (JNumber (Num 1)) = Some SCROLL_TOP_EVENT
   \<and> normalizeEventType_base up (JNumber (Num 2)) = Some SCROLL_BOTTOM_EVENT
   \<and> normalizeEventType_base up (JNumber (Num 3)) = Some DOUBLE_CLICK_EVENT
   \<and> (\<forall>n. n \<notin> {Num 0, Num 1, Num 2, Num 3} \<longrightarrow> normalizeEventType_base up (JNumber n) = None)
   \<and> (\<forall>s. normalizeEventType_base up (JString s) =
          (if occursIn ''DOUBLE'' (up s) then Some DOUBLE_CLICK_EVENT
           else if occursIn ''CLICK'' (up s) then Some CLICK_EVENT
           else if occursIn ''SCROLL_TOP'' (up s) \<or> occursIn ''UP'' (up s)
             then Some SCROLL_TOP_EVENT
           else if occursIn ''SCROLL_BOTTOM'' (up s) \<or> occursIn ''DOWN'' (up s)
             then Some SCROLL_BOTTOM_EVENT
           else None))
   \<and> (upperCasesLetterRuns up \<longrightarrow>
        (\<forall>s. containsIgnoringCase s ''double'' \<and> containsIgnoringCase s ''click''
           \<longrightarrow> normalizeEventType_base up (JString s) = Some DOUBLE_CLICK_EVENT))
   \<and> (\<forall>v. (\<forall>n. v \<noteq> JNumber n) \<and> (\<forall>s. v \<noteq> JString s) \<longrightarrow> normalizeEventType_base up v = None)"
proof (intro conjI allI impI)
  fix s
  show "normalizeEventType_base up (JString s) =
          (if occursIn ''DOUBLE'' (up s) then Some DOUBLE_CLICK_EVENT
           else if occursIn ''CLICK'' (up s) then Some CLICK_EVENT
           else if occursIn ''SCROLL_TOP'' (up s) \<or> occursIn ''UP'' (up s)
             then Some SCROLL_TOP_EVENT
           else if occursIn ''SCROLL_BOTTOM'' (up s) \<or> occursIn ''DOWN'' (up s)
             then Some SCROLL_BOTTOM_EVENT
           else None)"
    by (rule normalize_string_precedence)
next
  fix s
  assume "upperCasesLetterRuns up"
    and "containsIgnoringCase s ''double'' \<and> containsIgnoringCase s ''click''"
  then show "normalizeEventType_base up (JString s) = Some DOUBLE_CLICK_EVENT"
    using normalize_double_any_case by blast
next
  fix v
  assume "(\<forall>n. v \<noteq> JNumber n) \<and> (\<forall>s. v \<noteq> JString s)"
  then show "normalizeEventType_base up v = None"
    using normalize_other_types by blast
qed simp_all

theorem normalizeEventType_table_and_precedence_witness:
  "Num 7 \<notin> {Num 0, Num 1, Num 2, Num 3}
   \<and> normalizeEventType_base toUpperCase (JNumber (Num 7)) = None
   \<and> upperCasesLetterRuns toUpperCase
   \<and> containsIgnoringCase ''Double_Click'' ''double''
   \<and> containsIgnoringCase ''Double_Click'' ''click''
   \<and> normalizeEventType_base toUpperCase (JString ''Double_Click'') = Some DOUBLE_CLICK_EVENT
   \<and> normalizeEventType_base toUpperCase JNull = None"
proof -
  have n: "Num 7 \<notin> {Num 0, Num 1, Num 2, Num 3}" by simp
  have d: "containsIgnoringCase ''Double_Click'' ''double''"
    unfolding containsIgnoringCase_def
    by (rule exI [of _ "[]"], rule exI [of _ "''Double''"], rule exI [of _ "''_Click''"])
       (simp add: toUpperCase_def toUpperChar_def)
  have c: "containsIgnoringCase ''Double_Click'' ''click''"
    unfolding containsIgnoringCase_def
    by (rule exI [of _ "''Double_''"], rule exI [of _ "''Click''"], rule exI [of _ "[]"])
       (simp add: toUpperCase_def toUpperChar_def)
  have o: "(\<forall>n. JNull \<noteq> JNumber n) \<and> (\<forall>s. JNull \<noteq> JString s)" by simp
  note r = toUpperCase_upperCasesLetterRuns
  show ?thesis
    using normalizeEventType_table_and_precedence [of toUpperCase] n d c o r by blast
qed

text \<open>
  Claim C10. The decoder and the normalizer of the base application and those of the
  REST-API application are the same functions: on every event and on every raw
  event-type value they return the same result.
\<close>

theorem decoder_normalizer_instances_equal:
  "getRawEventType_base = getRawEventType_rest
   \<and> normalizeEventType_base = normalizeEventType_rest"
proof (rule conjI)
  show "getRawEventType_base = getRawEventType_rest"
  proof (rule ext)
    fix event
    show "getRawEventType_base event = getRawEventType_rest event"
      by (simp add: getRawEventType_base_def getRawEventType_rest_def)
  qed
next
  show "normalizeEventType_base = normalizeEventType_rest"
  proof (rule ext, rule ext)
    fix up v
    show "normalizeEventType_base up v = normalizeEventType_rest up v"
      by (cases v) simp_all
  qed
qed

section \<open>The selection resolver\<close>

lemma findIndexFrom_none: "\<forall>x\<in>set xs. \<not> P x \<Longrightarrow> findIndexFrom i P xs = - 1"
  by (induction xs arbitrary: i) auto

lemma findIndexFrom_first:
  "\<exists>x\<in>set xs. P x \<Longrightarrow>
     i \<le> findIndexFrom i P xs \<and> findIndexFrom i P xs < i + int (length xs)
     \<and> P (xs ! nat (findIndexFrom i P xs - i))
     \<and> (\<forall>j < nat (findIndexFrom i P xs - i). \<not> P (xs ! j))"
proof (induction xs arbitrary: i)
  case Nil
  then show ?case by simp
next
  case (Cons x xs)
  show ?case
  proof (cases "P x")
    case True
    then show ?thesis by simp
  next
    case False
    with Cons.prems have ex: "\<exists>x\<in>set xs. P x" by auto
    let ?r = "findIndexFrom (i + 1) P xs"
    from Cons.IH [OF ex, of "i + 1"]
    have a: "i + 1 \<le> ?r" and b: "?r < i + 1 + int (length xs)"
      and c: "P (xs ! nat (?r - (i + 1)))"
      and d: "\<forall>j < nat (?r - (i + 1)). \<not> P (xs ! j)" by auto
    have n: "nat (?r - i) = Suc (nat (?r - (i + 1)))" using a by simp
    have "\<forall>j < nat (?r - i). \<not> P ((x # xs) ! j)"
    proof (intro allI impI)
      fix j assume "j < nat (?r - i)"
      then show "\<not> P ((x # xs) ! j)" using False d n by (cases j) auto
    qed
    with False a b c n show ?thesis by simp
  qed
qed

lemma findIndex_first:
  assumes "\<exists>x\<in>set xs. P x"
  shows "0 \<le> findIndex P xs \<and> findIndex P xs < int (length xs)
     \<and> P (xs ! nat (findIndex P xs))
     \<and> (\<forall>j < nat (findIndex P xs). \<not> P (xs ! j))"
  using findIndexFrom_first [OF assms, of 0] by (simp add: findIndex_def)

lemma findIndex_none: "\<forall>x\<in>set xs. \<not> P x \<Longrightarrow> findIndex P xs = - 1"
  by (simp add: findIndex_def findIndexFrom_none)

lemma findIndex_nonneg_iff: "0 \<le> findIndex P xs \<longleftrightarrow> (\<exists>x\<in>set xs. P x)"
proof (cases "\<exists>x\<in>set xs. P x")
  case True
  then show ?thesis using findIndex_first [of xs P] by simp
next
  case False
  then have "findIndex P xs = - 1" by (simp add: findIndex_none)
  with False show ?thesis by simp
qed

lemma startsWith_Nil_left: "startsWith [] p \<longleftrightarrow> p = []"
  by (cases p) auto

text \<open>
  Claim C3, as amended. When neither index field holds an index in range and no option
  equals the incoming name up to case, the resolver returns the first option, in list
  order, whose lower-cased label is a prefix of the trimmed, lower-cased incoming name
  (the option is a prefix of the name, not the name of the option), and \<open>-1\<close> when
  there is none. The name "orange" resolves to index 2.
\<close>

theorem parseIncomingThemeIndex_by_prefix:
  assumes "\<not> acceptedIndex (parseIndex (indexFromList event))"
    and "\<not> acceptedIndex (parseIndex (indexFromRaw event))"
    and "byExactName (incomingNameOf event) < 0"
  shows "(if \<exists>name\<in>set THEME_OPTIONS. startsWith (incomingNameOf event) (toLowerCase name)
          then 0 \<le> parseIncomingThemeIndex event
             \<and> parseIncomingThemeIndex event < int (length THEME_OPTIONS)
             \<and> startsWith (incomingNameOf event)
                  (toLowerCase (THEME_OPTIONS ! nat (parseIncomingThemeIndex event)))
             \<and> (\<forall>j < nat (parseIncomingThemeIndex event).
                   \<not> startsWith (incomingNameOf event) (toLowerCase (THEME_OPTIONS ! j)))
          else parseIncomingThemeIndex event = - 1)
         \<and> parseIncomingThemeIndex (listNameEvent ''orange'') = 2"
proof -
  let ?n = "incomingNameOf event"
  let ?P = "\<lambda>name. startsWith ?n (toLowerCase name)"
  have nonempty: "(\<exists>name\<in>set THEME_OPTIONS. ?P name) \<Longrightarrow> ?n \<noteq> []"
    by (auto simp: THEME_OPTIONS_def toLowerCase_def startsWith_Nil_left)
  have r: "parseIncomingThemeIndex event = byPrefix ?n"
  proof (cases "\<exists>name\<in>set THEME_OPTIONS. ?P name")
    case True
    then have "0 \<le> byPrefix ?n" by (simp add: byPrefix_def findIndex_nonneg_iff)
    with True nonempty assms show ?thesis
      by (simp add: parseIncomingThemeIndex_def Let_def)
  next
    case False
    then have "byPrefix ?n = - 1" by (simp add: byPrefix_def findIndex_none)
    with assms show ?thesis by (simp add: parseIncomingThemeIndex_def Let_def)
  qed
  have o: "parseIncomingThemeIndex (listNameEvent ''orange'') = 2" by code_simp
  show ?thesis
  proof (cases "\<exists>name\<in>set THEME_OPTIONS. ?P name")
    case True
    from findIndex_first [OF True] True r o show ?thesis
      by (simp add: byPrefix_def)
  next
    case False
    then have "byPrefix ?n = - 1" by (simp add: byPrefix_def findIndex_none)
    with False r o show ?thesis by simp
  qed
qed

theorem parseIncomingThemeIndex_by_prefix_witness:
  "\<not> acceptedIndex (parseIndex (indexFromList (listNameEvent '' Green (selected)'')))
   \<and> \<not> acceptedIndex (parseIndex (indexFromRaw (listNameEvent '' Green (selected)'')))
   \<and> byExactName (incomingNameOf (listNameEvent '' Green (selected)'')) < 0
   \<and> parseIncomingThemeIndex (listNameEvent '' Green (selected)'') = 1
   \<and> incomingNameOf (listNameEvent '' Green (selected)'') = ''green (selected)''
   \<and> startsWith ''green (selected)'' (toLowerCase (THEME_OPTIONS ! 1))"
proof -
  let ?e = "listNameEvent '' Green (selected)''"
  have h1: "\<not> acceptedIndex (parseIndex (indexFromList ?e))" by code_simp
  have h2: "\<not> acceptedIndex (parseIndex (indexFromRaw ?e))" by code_simp
  have h3: "byExactName (incomingNameOf ?e) < 0" by code_simp
  have r: "parseIncomingThemeIndex ?e = 1" by code_simp
  have n: "incomingNameOf ?e = ''green (selected)''" by code_simp
  have ex: "\<exists>name\<in>set THEME_OPTIONS. startsWith (incomingNameOf ?e) (toLowerCase name)"
    unfolding n by (rule bexI [of _ "''Green''"]) (simp_all add: THEME_OPTIONS_def toLowerCase_def toLowerChar_def)
  from parseIncomingThemeIndex_by_prefix [OF h1 h2 h3] ex
  have "startsWith (incomingNameOf ?e) (toLowerCase (THEME_OPTIONS ! nat (parseIncomingThemeIndex ?e)))"
    by (simp only: if_True)
  then have "startsWith ''green (selected)'' (toLowerCase (THEME_OPTIONS ! 1))"
    unfolding n r by simp
  with h1 h2 h3 r n show ?thesis by blast
qed

text \<open>
  Claim C3 as stated fails: the name "Gre" is a prefix of the option "Green" up to case,
  no index is given and no option equals it, yet the resolver returns \<open>-1\<close>, not 1.
\<close>

theorem prefix_rule_counterexample:
  "\<not> acceptedIndex (parseIndex (indexFromList (listNameEvent ''Gre'')))
   \<and> \<not> acceptedIndex (parseIndex (indexFromRaw (listNameEvent ''Gre'')))
   \<and> byExactName (incomingNameOf (listNameEvent ''Gre'')) = - 1
   \<and> claimedPrefixIndex (incomingNameOf (listNameEvent ''Gre'')) = 1
   \<and> parseIncomingThemeIndex (listNameEvent ''Gre'') = - 1"
  by code_simp

section \<open>The listener of the base application\<close>

lemma lastEvent_onHubEvent:
  "lastEvent (onHubEvent event st) =
     ''glasses: '' @ getEventTypeLabel (normalizeEventType_base toUpperCase (getRawEventType_base event))"
  by (simp add: onHubEvent_def Let_def)

lemma getEventTypeLabel_cases:
  "getEventTypeLabel t \<in> {''click'', ''double-click'', ''scroll-up'', ''scroll-down'', ''unknown''}"
  by (simp add: getEventTypeLabel_def split: option.splits OsEventTypeList.splits)

text \<open>
  Claim C2, at its failing input. For the list event that carries neither a type nor an
  index nor a name, the reconciler stores the marker of the implicit fallback in the
  last-event field, and the selection is 0; but the listener then overwrites the field
  with the label of the event type, so after the whole event-handling path the field
  reads "glasses: unknown". No event leaves the marker in the field.
\<close>

theorem list_fallback_marker_overwritten:
  "normalizeEventType_base toUpperCase (getRawEventType_base bareListEvent) = None
   \<and> listEvent bareListEvent \<noteq> None
   \<and> parseIncomingThemeIndex bareListEvent = - 1
   \<and> lastEvent (updateStateFromHubSelection bareListEvent None initial_state)
       = ''glasses: list-fallback -> Blue''
   \<and> selectedTheme (onHubEvent bareListEvent initial_state) = 0
   \<and> lastEvent (onHubEvent bareListEvent initial_state) = ''glasses: unknown''
   \<and> (\<forall>event st. lastEvent (onHubEvent event st) \<noteq> ''glasses: list-fallback -> Blue'')"
proof -
  have a: "normalizeEventType_base toUpperCase (getRawEventType_base bareListEvent) = None" by code_simp
  have b: "listEvent bareListEvent \<noteq> None" by code_simp
  have c: "parseIncomingThemeIndex bareListEvent = - 1" by code_simp
  have d: "lastEvent (updateStateFromHubSelection bareListEvent None initial_state)
       = ''glasses: list-fallback -> Blue''" by code_simp
  have e: "selectedTheme (onHubEvent bareListEvent initial_state) = 0" by code_simp
  have f: "lastEvent (onHubEvent bareListEvent initial_state) = ''glasses: unknown''"
    by code_simp
  have g: "lastEvent (onHubEvent event st) \<noteq> ''glasses: list-fallback -> Blue''" for event st
    using getEventTypeLabel_cases [of "normalizeEventType_base toUpperCase (getRawEventType_base event)"]
    by (auto simp: lastEvent_onHubEvent)
  from a b c d e f g show ?thesis by blast
qed

section \<open>Clamping and the state reconcilers\<close>

lemma clampThemeIndex_range: "0 \<le> clampThemeIndex i \<and> clampThemeIndex i \<le> 2"
  by (simp add: clampThemeIndex_def THEME_OPTIONS_def)

lemma clampThemeIndex_id: "0 \<le> i \<Longrightarrow> i < 3 \<Longrightarrow> clampThemeIndex i = i"
  by (simp add: clampThemeIndex_def THEME_OPTIONS_def)

lemma updateStateFromHubSelection_range:
  assumes "0 \<le> selectedTheme st" "selectedTheme st \<le> 2"
  shows "0 \<le> selectedTheme (updateStateFromHubSelection event t st)
         \<and> selectedTheme (updateStateFromHubSelection event t st) \<le> 2"
  using assms clampThemeIndex_range
  by (simp add: updateStateFromHubSelection_def Let_def)

lemma selectedTheme_onHubEvent:
  "selectedTheme (onHubEvent event st) =
     selectedTheme (updateStateFromHubSelection event
        (normalizeEventType_base toUpperCase (getRawEventType_base event)) st)"
  by (simp add: onHubEvent_def Let_def split: option.splits OsEventTypeList.splits)

lemma onHubEvent_range:
  assumes "0 \<le> selectedTheme st" "selectedTheme st \<le> 2"
  shows "0 \<le> selectedTheme (onHubEvent event st) \<and> selectedTheme (onHubEvent event st) \<le> 2"
  using updateStateFromHubSelection_range [OF assms] by (simp add: selectedTheme_onHubEvent)

lemma clampIndex_range: "0 < n \<Longrightarrow> 0 \<le> clampIndex i n \<and> clampIndex i n < n"
  by (simp add: clampIndex_def)













text \<open>
  Claim C5, at its failing input. Without a bridge, the user chooses the second of the
  two URLs (the change handler stores index 1) and removes it: one option is left, the
  select element shows index 0, and \<^verbatim>\<open>bridgeState.selectedIndex\<close> is still 1, outside
  the range of the list of length 1.
\<close>

theorem mock_remove_leaves_index_out_of_range:
  "bridgeDisplay restMockPicked = Some Mock
   \<and> selectedIndex restMockPicked = 1
   \<and> length (options restMockPicked) = 2
   \<and> length (options restMockRemoved) = 1
   \<and> domSelectedIndex restMockRemoved = 0
   \<and> selectedIndex restMockRemoved = 1"
  by code_simp

text \<open>In the base application every sequence of bridge events keeps the selection in
  range.\<close>

lemma events_keep_theme_in_range:
  "0 \<le> selectedTheme (foldl (\<lambda>s e. onHubEvent e s) initial_state events)
   \<and> selectedTheme (foldl (\<lambda>s e. onHubEvent e s) initial_state events) \<le> 2"
proof (induction events rule: rev_induct)
  case Nil
  then show ?case by (simp add: initial_state_def)
next
  case (snoc e es)
  then show ?case using onHubEvent_range by simp
qed

section \<open>Remote rendering\<close>

text \<open>
  Claim C7, as amended. While the render flag is false, a remote render of either
  application issues one full construction of the page, and the flag becomes true
  exactly when that call succeeds. On every later render the base application first
  asks both text elements to update in place, and issues a full render in the same call
  when one of them answers that it could not; the REST-API application has no
  incremental update and issues a full rebuild directly on every later render.
\<close>

theorem render_protocol:
  "(\<not> flag \<longrightarrow>
      syncToGlasses env flag =
        ([PageRender], renderResolves env,
         if renderResolves env then Inr () else Inl RemoteFailure))
   \<and> (flag \<longrightarrow>
        hd (fst (syncToGlasses env flag)) = UpdateStateText
        \<and> fst (snd (syncToGlasses env flag)) = True
        \<and> (stateTextAnswer env \<noteq> UpdateRejected \<and> counterTextAnswer env \<noteq> UpdateRejected \<longrightarrow>
             fst (syncToGlasses env flag) =
               [UpdateStateText, UpdateCounterText] @
               (if stateTextAnswer env = NotUpdated \<or> counterTextAnswer env = NotUpdated
                then [PageRender] else [])))
   \<and> (\<not> startupRendered st \<longrightarrow>
        renderBridgePage r urls sel msg st =
          ([CreateStartUpPageContainer (pageConfigOf urls sel msg)],
           st\<lparr>startupRendered := r\<rparr>,
           if r then Inr () else Inl RemoteFailure))
   \<and> (startupRendered st \<longrightarrow>
        renderBridgePage r urls sel msg st =
          ([RebuildPageContainer (pageConfigOf urls sel msg)], st,
           if r then Inr () else Inl RemoteFailure))"
proof (intro conjI impI)
  assume "\<not> flag"
  then show "syncToGlasses env flag =
        ([PageRender], renderResolves env,
         if renderResolves env then Inr () else Inl RemoteFailure)"
    by (simp add: syncToGlasses_def)
next
  assume f: flag
  show "hd (fst (syncToGlasses env flag)) = UpdateStateText"
    using f by (simp add: syncToGlasses_def)
  show "fst (snd (syncToGlasses env flag)) = True"
    using f by (simp add: syncToGlasses_def)
  assume "stateTextAnswer env \<noteq> UpdateRejected \<and> counterTextAnswer env \<noteq> UpdateRejected"
  then show "fst (syncToGlasses env flag) =
               [UpdateStateText, UpdateCounterText] @
               (if stateTextAnswer env = NotUpdated \<or> counterTextAnswer env = NotUpdated
                then [PageRender] else [])"
    using f
    by (cases "stateTextAnswer env"; cases "counterTextAnswer env")
       (simp_all add: syncToGlasses_def)
next
  assume "\<not> startupRendered st"
  then show "renderBridgePage r urls sel msg st =
          ([CreateStartUpPageContainer (pageConfigOf urls sel msg)],
           st\<lparr>startupRendered := r\<rparr>,
           if r then Inr () else Inl RemoteFailure)"
    by (simp add: renderBridgePage_def Let_def)
next
  assume "startupRendered st"
  then show "renderBridgePage r urls sel msg st =
          ([RebuildPageContainer (pageConfigOf urls sel msg)], st,
           if r then Inr () else Inl RemoteFailure)"
    by (simp add: renderBridgePage_def Let_def)
qed

theorem render_protocol_witness:
  "syncToGlasses allFine False = ([PageRender], True, Inr ())
   \<and> stateTextAnswer counterNotUpdated \<noteq> UpdateRejected
   \<and> counterTextAnswer counterNotUpdated \<noteq> UpdateRejected
   \<and> fst (syncToGlasses counterNotUpdated True) = [UpdateStateText, UpdateCounterText, PageRender]
   \<and> \<not> startupRendered initial_rest_state
   \<and> fst (renderBridgePage True DEFAULT_URLS 0 ''Loading...'' initial_rest_state) =
       [CreateStartUpPageContainer (pageConfigOf DEFAULT_URLS 0 ''Loading...'')]
   \<and> startupRendered restBridgeConnected
   \<and> fst (renderBridgePage True DEFAULT_URLS 0 ''Loading...'' restBridgeConnected) =
       [RebuildPageContainer (pageConfigOf DEFAULT_URLS 0 ''Loading...'')]"
proof -
  have a: "renderResolves allFine" by (simp add: allFine_def)
  have b: "stateTextAnswer counterNotUpdated \<noteq> UpdateRejected"
    "counterTextAnswer counterNotUpdated \<noteq> UpdateRejected"
    "counterTextAnswer counterNotUpdated = NotUpdated"
    by (simp_all add: counterNotUpdated_def)
  have c: "\<not> startupRendered initial_rest_state" by (simp add: initial_rest_state_def)
  have d: "startupRendered restBridgeConnected" by code_simp
  from render_protocol [of False allFine initial_rest_state True DEFAULT_URLS 0 "''Loading...''"]
  have 1: "syncToGlasses allFine False = ([PageRender], True, Inr ())"
    and 3: "fst (renderBridgePage True DEFAULT_URLS 0 ''Loading...'' initial_rest_state) =
       [CreateStartUpPageContainer (pageConfigOf DEFAULT_URLS 0 ''Loading...'')]"
    using a c by simp_all
  from render_protocol [of True counterNotUpdated restBridgeConnected True DEFAULT_URLS 0 "''Loading...''"]
  have 2: "fst (syncToGlasses counterNotUpdated True) = [UpdateStateText, UpdateCounterText, PageRender]"
    and 4: "fst (renderBridgePage True DEFAULT_URLS 0 ''Loading...'' restBridgeConnected) =
       [RebuildPageContainer (pageConfigOf DEFAULT_URLS 0 ''Loading...'')]"
    using b d by simp_all
  from 1 2 3 4 b c d show ?thesis by simp
qed

text \<open>
  Claim C7 as stated fails in the REST-API application: with the flag true, a render is
  one full rebuild of the page; no per-element update is attempted first.
\<close>

theorem rest_subsequent_render_rebuilds_counterexample:
  "startupRendered restBridgeConnected
   \<and> renderBridgePage True DEFAULT_URLS 0 ''Loading...'' restBridgeConnected =
       ([RebuildPageContainer
          \<lparr>itemName = DEFAULT_URLS, currentSelectedItem = 0, statusContent = ''Loading...''\<rparr>],
        restBridgeConnected, Inr ())"
  by code_simp

section \<open>Connecting\<close>

lemma fold_ensureOption_startupRendered:
  "startupRendered (fold ensureOption us st) = startupRendered st"
  by (induction us arbitrary: st) (simp_all add: ensureOption_def selectAppend_def Let_def)

lemma ensureUi_startupRendered:
  "ensureUi True st = Inr ui \<Longrightarrow> startupRendered ui = startupRendered st"
  by (auto simp: ensureUi_def fold_ensureOption_startupRendered split: if_splits)

lemma ensureUi_present: "\<exists>ui. ensureUi True st = Inr ui"
  by (simp add: ensureUi_def)

lemma fold_ensureOption_bridgeDisplay:
  "bridgeDisplay (fold ensureOption us st) = bridgeDisplay st"
  by (induction us arbitrary: st) (simp_all add: ensureOption_def selectAppend_def Let_def)

lemma restConnect_bridge_render:
  assumes "withTimeout promise 4000 = Inr h"
  shows "\<exists>cfg. fst (restConnect r True promise st) =
           [if startupRendered st then RebuildPageContainer cfg
            else CreateStartUpPageContainer cfg]"
proof -
  obtain ui where u: "ensureUi True st = Inr ui" using ensureUi_present by blast
  let ?st0 = "ui\<lparr>activeSelect := True\<rparr>"
  have f0: "startupRendered ?st0 = startupRendered st"
    using ensureUi_startupRendered [OF u] by simp
  obtain st1 where i: "initBridgeDisplay 4000 promise ?st0 = Inr (st1, Bridge)"
    and f1: "startupRendered st1 = startupRendered st"
    using assms f0 by (simp add: initBridgeDisplay_def registerBridgeEvents_def Let_def)
  let ?st2 = "displayOnSelectAndRun Bridge st1"
  let ?urls = "getAllUrls ?st2"
  let ?st3 = "?st2\<lparr>selectedIndex := clampIndex (domSelectedIndex ?st2) (int (length ?urls))\<rparr>"
  have f3: "startupRendered ?st3 = startupRendered st"
    using f1 by (simp add: displayOnSelectAndRun_def)
  obtain trace st4 res where
    b: "bridgeRenderList r ?urls (selectedIndex ?st3) (Some ''Select URL and click'') ?st3
          = (trace, st4, res)"
    by (metis prod_cases3)
  have t: "\<exists>cfg. trace = [if startupRendered st then RebuildPageContainer cfg
            else CreateStartUpPageContainer cfg]"
    using b f3 by (auto simp: bridgeRenderList_def renderBridgePage_def Let_def split: if_splits)
  have "fst (restConnect r True promise st) = trace"
    using u i b by (cases res) (simp_all add: restConnect_def Let_def)
  with t show ?thesis by simp
qed

lemma restConnect_bridge_flag:
  assumes "withTimeout promise 4000 = Inr h"
  shows "startupRendered (fst (snd (restConnect r True promise st))) = (startupRendered st \<or> r)"
proof -
  obtain ui where u: "ensureUi True st = Inr ui" using ensureUi_present by blast
  let ?st0 = "ui\<lparr>activeSelect := True\<rparr>"
  have f0: "startupRendered ?st0 = startupRendered st"
    using ensureUi_startupRendered [OF u] by simp
  obtain st1 where i: "initBridgeDisplay 4000 promise ?st0 = Inr (st1, Bridge)"
    and f1: "startupRendered st1 = startupRendered st"
    using assms f0 by (simp add: initBridgeDisplay_def registerBridgeEvents_def Let_def)
  let ?st2 = "displayOnSelectAndRun Bridge st1"
  let ?urls = "getAllUrls ?st2"
  let ?st3 = "?st2\<lparr>selectedIndex := clampIndex (domSelectedIndex ?st2) (int (length ?urls))\<rparr>"
  have f3: "startupRendered ?st3 = startupRendered st"
    using f1 by (simp add: displayOnSelectAndRun_def)
  obtain trace st4 res where
    b: "bridgeRenderList r ?urls (selectedIndex ?st3) (Some ''Select URL and click'') ?st3
          = (trace, st4, res)"
    by (metis prod_cases3)
  have t: "startupRendered st4 = (startupRendered st \<or> r)"
    using b f3 by (auto simp: bridgeRenderList_def renderBridgePage_def Let_def split: if_splits)
  have "fst (snd (restConnect r True promise st)) = st4"
    using u i b by (cases res) (simp_all add: restConnect_def Let_def)
  with t show ?thesis by simp
qed

lemma connect_bridge_requests:
  assumes "withTimeout promise 4000 = Inr h"
  shows "requests (connect env promise tc) =
           fst (syncToGlasses env (case tc of Some (BridgeClient f) \<Rightarrow> f | _ \<Rightarrow> False))"
proof -
  let ?f = "case tc of Some (BridgeClient f) \<Rightarrow> f | _ \<Rightarrow> False"
  have i: "initTemplate 4000 promise tc = Inr (Some (BridgeClient ?f), BridgeClient ?f)"
    using assms by (simp add: initTemplate_def split: option.splits template_client.splits)
  obtain trace f' res where s: "syncToGlasses env ?f = (trace, f', res)"
    by (metis prod_cases3)
  show ?thesis
    using i s by (cases res) (simp_all add: connect_def clientStart_def clientSync_def)
qed

text \<open>
  Claim C1, as amended. A failed connect of the REST-API application resets the render
  flag to false; a successful one leaves the flag as it was. In the base application a
  successful connect makes a new bridge client, whose flag is false, when the client
  held is absent or the mock one, and keeps the bridge client held, with its flag,
  otherwise; a failed connect leaves the mock client, which stays the mock client. The
  render that a successful connect starts is a full construction when the flag is false
  at that moment, and it sets the flag exactly when the remote call succeeds; when the
  flag is true, that render attempts the incremental update first in the base
  application and is a rebuild in the REST-API application.
\<close>

theorem flag_after_connect:
  "((\<forall>h. withTimeout promise timeoutMs \<noteq> Inr h) \<longrightarrow>
      (case initBridgeDisplay timeoutMs promise st of
         Inr (st', m) \<Rightarrow> m = Mock \<and> \<not> startupRendered st'
       | Inl e \<Rightarrow> False))
   \<and> (withTimeout promise timeoutMs = Inr h \<longrightarrow>
        (case initBridgeDisplay timeoutMs promise st of
           Inr (st', m) \<Rightarrow> m = Bridge \<and> startupRendered st' = startupRendered st
         | Inl e \<Rightarrow> False))
   \<and> (withTimeout promise timeoutMs = Inr h \<and> (\<forall>f. tc \<noteq> Some (BridgeClient f)) \<longrightarrow>
        initTemplate timeoutMs promise tc = Inr (Some (BridgeClient False), BridgeClient False))
   \<and> (withTimeout promise timeoutMs = Inr h \<longrightarrow>
        initTemplate timeoutMs promise (Some (BridgeClient f))
          = Inr (Some (BridgeClient f), BridgeClient f))
   \<and> fst (snd (clientSync env MockClient)) = MockClient
   \<and> clientStart env (BridgeClient False) =
        ([PageRender], BridgeClient (renderResolves env),
         if renderResolves env then Inr () else Inl RemoteFailure)
   \<and> hd (fst (clientSync env (BridgeClient True))) = UpdateStateText
   \<and> (withTimeout promise 4000 = Inr h \<longrightarrow>
        requests (connect env promise tc) =
          fst (clientStart env
                 (BridgeClient (case tc of Some (BridgeClient f) \<Rightarrow> f | _ \<Rightarrow> False))))
   \<and> (withTimeout promise 4000 = Inr h \<longrightarrow>
        (\<exists>cfg. fst (restConnect r True promise st) =
           [if startupRendered st then RebuildPageContainer cfg
            else CreateStartUpPageContainer cfg]))
   \<and> (withTimeout promise 4000 = Inr h \<longrightarrow>
        startupRendered (fst (snd (restConnect r True promise st))) = (startupRendered st \<or> r))"
proof (intro conjI impI)
  assume "\<forall>h. withTimeout promise timeoutMs \<noteq> Inr h"
  then obtain e where "withTimeout promise timeoutMs = Inl e"
    by (cases "withTimeout promise timeoutMs") auto
  then show "case initBridgeDisplay timeoutMs promise st of
         Inr (st', m) \<Rightarrow> m = Mock \<and> \<not> startupRendered st'
       | Inl e \<Rightarrow> False"
    by (simp add: initBridgeDisplay_def)
next
  assume "withTimeout promise timeoutMs = Inr h"
  then show "case initBridgeDisplay timeoutMs promise st of
           Inr (st', m) \<Rightarrow> m = Bridge \<and> startupRendered st' = startupRendered st
         | Inl e \<Rightarrow> False"
    by (simp add: initBridgeDisplay_def registerBridgeEvents_def Let_def)
next
  assume a: "withTimeout promise timeoutMs = Inr h \<and> (\<forall>f. tc \<noteq> Some (BridgeClient f))"
  show "initTemplate timeoutMs promise tc = Inr (Some (BridgeClient False), BridgeClient False)"
  proof (cases tc)
    case None
    with a show ?thesis by (simp add: initTemplate_def)
  next
    case (Some c)
    with a have "c = MockClient" by (cases c) auto
    with Some a show ?thesis by (simp add: initTemplate_def)
  qed
next
  assume "withTimeout promise timeoutMs = Inr h"
  then show "initTemplate timeoutMs promise (Some (BridgeClient f))
          = Inr (Some (BridgeClient f), BridgeClient f)"
    by (simp add: initTemplate_def)
next
  show "fst (snd (clientSync env MockClient)) = MockClient"
    by (simp add: clientSync_def)
  show "clientStart env (BridgeClient False) =
        ([PageRender], BridgeClient (renderResolves env),
         if renderResolves env then Inr () else Inl RemoteFailure)"
    by (simp add: clientStart_def clientSync_def syncToGlasses_def)
  show "hd (fst (clientSync env (BridgeClient True))) = UpdateStateText"
    by (simp add: clientSync_def syncToGlasses_def split: prod.splits)
next
  assume w: "withTimeout promise 4000 = Inr h"
  show "requests (connect env promise tc) =
          fst (clientStart env
                 (BridgeClient (case tc of Some (BridgeClient f) \<Rightarrow> f | _ \<Rightarrow> False)))"
    using connect_bridge_requests [OF w, of env tc]
    by (simp add: clientStart_def clientSync_def split: prod.splits)
next
  assume w: "withTimeout promise 4000 = Inr h"
  show "\<exists>cfg. fst (restConnect r True promise st) =
           [if startupRendered st then RebuildPageContainer cfg
            else CreateStartUpPageContainer cfg]"
    by (rule restConnect_bridge_render [OF w])
next
  assume w: "withTimeout promise 4000 = Inr h"
  show "startupRendered (fst (snd (restConnect r True promise st))) = (startupRendered st \<or> r)"
    by (rule restConnect_bridge_flag [OF w])
qed

theorem flag_after_connect_witness:
  "withTimeout (Rejects 5 :: nat acquisition) 4000 = Inl AcquisitionFailed
   \<and> startupRendered restBridgeConnected
   \<and> (case initBridgeDisplay 4000 (Rejects 5) restBridgeConnected of
         Inr (st', m) \<Rightarrow> m = Mock \<and> \<not> startupRendered st'
       | Inl e \<Rightarrow> False)
   \<and> withTimeout (Resolves 10 (1::nat)) 4000 = Inr 1
   \<and> initTemplate 4000 (Resolves 10 (1::nat)) (Some MockClient)
        = Inr (Some (BridgeClient False), BridgeClient False)
   \<and> initTemplate 4000 (Resolves 10 (1::nat)) (Some (BridgeClient True))
        = Inr (Some (BridgeClient True), BridgeClient True)
   \<and> requests (connect allFine (Resolves 10 (1::nat)) (Some MockClient)) = [PageRender]"
proof -
  have a: "withTimeout (Rejects 5 :: nat acquisition) 4000 = Inl AcquisitionFailed"
    by (simp add: withTimeout_def)
  then have a': "\<forall>h. withTimeout (Rejects 5 :: nat acquisition) 4000 \<noteq> Inr h" by simp
  have b: "withTimeout (Resolves 10 (1::nat)) 4000 = Inr 1" by (simp add: withTimeout_def)
  have c: "\<forall>f. Some MockClient \<noteq> Some (BridgeClient f)" by simp
  have d: "startupRendered restBridgeConnected" by code_simp
  have e: "renderResolves allFine" by (simp add: allFine_def)
  note t1 = flag_after_connect [of "Rejects 5" 4000 restBridgeConnected 1 "Some MockClient"
      True allFine True]
  note t2 = flag_after_connect [of "Resolves 10 1" 4000 restBridgeConnected 1 "Some MockClient"
      True allFine True]
  from t1 a' have 1: "case initBridgeDisplay 4000 (Rejects 5) restBridgeConnected of
         Inr (st', m) \<Rightarrow> m = Mock \<and> \<not> startupRendered st'
       | Inl e \<Rightarrow> False" by blast
  from t2 b c have 2: "initTemplate 4000 (Resolves 10 (1::nat)) (Some MockClient)
        = Inr (Some (BridgeClient False), BridgeClient False)" by blast
  from t2 b have 3: "initTemplate 4000 (Resolves 10 (1::nat)) (Some (BridgeClient True))
        = Inr (Some (BridgeClient True), BridgeClient True)" by blast
  from t2 b have "requests (connect allFine (Resolves 10 (1::nat)) (Some MockClient)) =
      fst (clientStart allFine (BridgeClient False))" by simp
  moreover from t2 have "clientStart allFine (BridgeClient False) =
        ([PageRender], BridgeClient (renderResolves allFine),
         if renderResolves allFine then Inr () else Inl RemoteFailure)" by blast
  ultimately have 4: "requests (connect allFine (Resolves 10 (1::nat)) (Some MockClient))
      = [PageRender]" by simp
  from a b d 1 2 3 4 show ?thesis by (intro conjI)
qed

text \<open>
  Claim C1 as stated fails: after a successful connect and its first render the flag is
  true; a second successful connect keeps the client and the flag, and the render it
  starts is an incremental update, not a full construction. In the REST-API application
  the flag is likewise still true after the second successful connect.
\<close>

theorem reconnect_keeps_flag_counterexample:
  "clientAfter (connect allFine (Resolves 10 (1::nat)) None) = Some (BridgeClient True)
   \<and> initTemplate 4000 (Resolves 10 (1::nat)) (Some (BridgeClient True))
       = Inr (Some (BridgeClient True), BridgeClient True)
   \<and> requests (connect allFine (Resolves 10 (1::nat)) (Some (BridgeClient True)))
       = [UpdateStateText, UpdateCounterText]
   \<and> startupRendered restBridgeConnected
   \<and> startupRendered (fst (snd (restConnect True True (Resolves 10 1) restBridgeConnected)))"
  by code_simp

text \<open>
  Claim C8, as amended. When the acquisition of the bridge rejects, never settles, or
  resolves only after the timer has fired, the detector of either application returns
  the mock mode as a value and raises nothing; with the default budget of 4000 ms the
  connect actions of both applications (the page holding the \<^verbatim>\<open>#app\<close> root) end in mock
  mode with no remote request. In mock
  mode the operations of the mock client and of the mock display (start, sync, show,
  list render) and the list update that follows a change in the browser issue no remote
  request, while the action still updates the state and the browser panel shows the
  values of the state. Renders started by an event listener that an earlier successful
  connect registered are not part of this statement.
\<close>

theorem mock_mode_on_failed_acquisition:
  assumes "\<forall>t h. promise = Resolves t h \<longrightarrow> timeoutMs < t"
  shows "initTemplate timeoutMs promise tc = Inr (tc, MockClient)
    \<and> clientMode MockClient = Mock
    \<and> clientSync env MockClient = ([], MockClient, Inr ())
    \<and> clientStart env MockClient = ([], MockClient, Inr ())
    \<and> initBridgeDisplay timeoutMs promise st =
        Inr (st\<lparr>bridge := None, startupRendered := False,
                statusMessage := ''Select URL and click'', bridgeDisplay := Some Mock\<rparr>, Mock)
    \<and> displayShow Mock r msg st' = ([], st', Inr ())
    \<and> displayRenderList Mock r urls sel optmsg st' = ([], st', Inr ())
    \<and> (bridgeDisplay st' = Some Mock \<longrightarrow>
         fst (updateBridgeListFromBrowserSelect r st') = []
         \<and> fst (selectOnChange r k st') = []
         \<and> fst (addButtonOnClick r input st') = []
         \<and> fst (removeButtonOnClick r st') = [])
    \<and> (timeoutMs = 4000 \<longrightarrow>
         connect env promise tc =
           \<lparr>clientAfter = Some MockClient, requests = [],
            status = ''Base template: bridge unavailable. Running browser-only mock mode.''\<rparr>)
    \<and> (timeoutMs = 4000 \<longrightarrow>
         fst (restConnect r True promise st) = []
         \<and> snd (snd (restConnect r True promise st)) = Inr Mock
         \<and> bridgeDisplay (fst (snd (restConnect r True promise st))) = Some Mock
         \<and> bridge (fst (snd (restConnect r True promise st))) = None)
    \<and> action env ui (Some MockClient) bst =
        (bst\<lparr>counter := counterPlusOne (counter bst), lastEvent := ''web: main action button''\<rparr>,
         Some MockClient,
         renderBrowserPanel ui
           (bst\<lparr>counter := counterPlusOne (counter bst),
                lastEvent := ''web: main action button''\<rparr>),
         [], Inr ''Base template: counter incremented and synced.'')
    \<and> renderBrowserPanel True bst =
        Some \<lparr>counterValue = counter bst,
              stateValue = (if active bst then ''active'' else ''idle''),
              themeValue = THEME_OPTIONS ! nat (clampThemeIndex (selectedTheme bst)),
              lastEventValue = lastEvent bst,
              previewBackground =
                getPreviewBackground (THEME_OPTIONS ! nat (clampThemeIndex (selectedTheme bst)))
                  (active bst),
              barWidthPercent = max 0 (min 100 (counter bst))\<rparr>"
proof -
  have "\<exists>e. withTimeout promise timeoutMs = Inl e"
    using assms by (cases promise) (auto simp: withTimeout_def)
  then obtain e where w: "withTimeout promise timeoutMs = Inl e" by blast
  have 1: "initTemplate timeoutMs promise tc = Inr (tc, MockClient)"
    using w by (simp add: initTemplate_def)
  have 2: "clientMode MockClient = Mock" by (simp add: clientMode_def)
  have 3: "clientSync env MockClient = ([], MockClient, Inr ())" by (simp add: clientSync_def)
  have st: "clientStart env MockClient = ([], MockClient, Inr ())"
    by (simp add: clientStart_def clientSync_def)
  have 4: "initBridgeDisplay timeoutMs promise st =
        Inr (st\<lparr>bridge := None, startupRendered := False,
                statusMessage := ''Select URL and click'', bridgeDisplay := Some Mock\<rparr>, Mock)"
    using w by (simp add: initBridgeDisplay_def)
  have 5: "displayShow Mock r msg st' = ([], st', Inr ())" by (simp add: displayShow_def)
  have 6: "displayRenderList Mock r urls sel optmsg st' = ([], st', Inr ())"
    by (simp add: displayRenderList_def)
  have 7: "bridgeDisplay st' = Some Mock \<longrightarrow>
         fst (updateBridgeListFromBrowserSelect r st') = []
         \<and> fst (selectOnChange r k st') = []
         \<and> fst (addButtonOnClick r input st') = []
         \<and> fst (removeButtonOnClick r st') = []"
  proof
    assume m: "bridgeDisplay st' = Some Mock"
    have u: "bridgeDisplay x = Some Mock \<Longrightarrow> fst (updateBridgeListFromBrowserSelect r x) = []"
      for x by (simp add: updateBridgeListFromBrowserSelect_def)
    have a: "fst (updateBridgeListFromBrowserSelect r st') = []" using m by (rule u)
    have b: "fst (selectOnChange r k st') = []"
      unfolding selectOnChange_def Let_def using m by (intro u) (simp add: selectSetIndex_def)
    have c: "fst (addButtonOnClick r input st') = []"
    proof (cases "trim input = []")
      case True
      then show ?thesis by (simp add: addButtonOnClick_def Let_def)
    next
      case False
      have "bridgeDisplay (selectSetValue (trim input) (ensureOption (trim input) st')) = Some Mock"
        using m by (simp add: selectSetValue_def ensureOption_def selectAppend_def Let_def)
      then have "fst (updateBridgeListFromBrowserSelect r
          (selectSetValue (trim input) (ensureOption (trim input) st'))) = []" by (rule u)
      with False show ?thesis by (simp add: addButtonOnClick_def Let_def)
    qed
    have d: "fst (removeButtonOnClick r st') = []"
    proof (cases "selectedUrl st' = []")
      case True
      then show ?thesis by (simp add: removeButtonOnClick_def Let_def)
    next
      case False
      let ?st1 = "selectRemove (domSelectedIndex st') st'"
      let ?st2 = "if length (options ?st1) > 0
                  then selectSetIndex (max 0 (domSelectedIndex st' - 1)) ?st1 else ?st1"
      have "bridgeDisplay ?st2 = Some Mock"
        using m by (simp add: selectRemove_def selectSetIndex_def Let_def)
      then have "fst (updateBridgeListFromBrowserSelect r ?st2) = []" by (rule u)
      with False show ?thesis by (simp add: removeButtonOnClick_def Let_def)
    qed
    from a b c d show "fst (updateBridgeListFromBrowserSelect r st') = []
         \<and> fst (selectOnChange r k st') = []
         \<and> fst (addButtonOnClick r input st') = []
         \<and> fst (removeButtonOnClick r st') = []" by simp
  qed
  have 8: "timeoutMs = 4000 \<longrightarrow>
         connect env promise tc =
           \<lparr>clientAfter = Some MockClient, requests = [],
            status = ''Base template: bridge unavailable. Running browser-only mock mode.''\<rparr>"
  proof
    assume "timeoutMs = 4000"
    with 1 have "initTemplate 4000 promise tc = Inr (tc, MockClient)" by simp
    then show "connect env promise tc =
           \<lparr>clientAfter = Some MockClient, requests = [],
            status = ''Base template: bridge unavailable. Running browser-only mock mode.''\<rparr>"
      by (simp add: connect_def clientStart_def clientSync_def clientMode_def)
  qed
  have 9: "timeoutMs = 4000 \<longrightarrow>
         fst (restConnect r True promise st) = []
         \<and> snd (snd (restConnect r True promise st)) = Inr Mock
         \<and> bridgeDisplay (fst (snd (restConnect r True promise st))) = Some Mock
         \<and> bridge (fst (snd (restConnect r True promise st))) = None"
  proof
    assume "timeoutMs = 4000"
    with w have "withTimeout promise 4000 = Inl e" by simp
    then show "fst (restConnect r True promise st) = []
         \<and> snd (snd (restConnect r True promise st)) = Inr Mock
         \<and> bridgeDisplay (fst (snd (restConnect r True promise st))) = Some Mock
         \<and> bridge (fst (snd (restConnect r True promise st))) = None"
      by (simp add: restConnect_def ensureUi_def initBridgeDisplay_def displayOnSelectAndRun_def
          Let_def)
  qed
  have 10: "action env ui (Some MockClient) bst =
        (bst\<lparr>counter := counterPlusOne (counter bst), lastEvent := ''web: main action button''\<rparr>,
         Some MockClient,
         renderBrowserPanel ui
           (bst\<lparr>counter := counterPlusOne (counter bst),
                lastEvent := ''web: main action button''\<rparr>),
         [], Inr ''Base template: counter incremented and synced.'')"
    by (simp add: action_def clientSync_def Let_def)
  have 11: "renderBrowserPanel True bst =
        Some \<lparr>counterValue = counter bst,
              stateValue = (if active bst then ''active'' else ''idle''),
              themeValue = THEME_OPTIONS ! nat (clampThemeIndex (selectedTheme bst)),
              lastEventValue = lastEvent bst,
              previewBackground =
                getPreviewBackground (THEME_OPTIONS ! nat (clampThemeIndex (selectedTheme bst)))
                  (active bst),
              barWidthPercent = max 0 (min 100 (counter bst))\<rparr>"
    by (simp add: renderBrowserPanel_def getCurrentTheme_def Let_def)
  from 1 2 3 st 4 5 6 7 8 9 10 11 show ?thesis by blast
qed

theorem mock_mode_on_failed_acquisition_witness:
  "initTemplate 4000 (NeverSettles :: nat acquisition) None = Inr (None, MockClient)
   \<and> connect allFine (NeverSettles :: nat acquisition) None =
        \<lparr>clientAfter = Some MockClient, requests = [],
         status = ''Base template: bridge unavailable. Running browser-only mock mode.''\<rparr>
   \<and> restConnect True True NeverSettles initial_rest_state = ([], restMockConnected, Inr Mock)
   \<and> bridgeDisplay restMockConnected = Some Mock
   \<and> fst (updateBridgeListFromBrowserSelect True restMockConnected) = []
   \<and> renderBrowserPanel True initial_state =
        Some \<lparr>counterValue = 0, stateValue = ''idle'', themeValue = ''Blue'',
              lastEventValue = ''none'',
              previewBackground =
                ''linear-gradient(135deg, rgba(18, 64, 130, 0.45), rgba(40, 120, 202, 0.45))'',
              barWidthPercent = 0\<rparr>"
proof -
  have h: "\<forall>t h. (NeverSettles :: nat acquisition) = Resolves t h \<longrightarrow> 4000 < t" by simp
  have m: "bridgeDisplay restMockConnected = Some Mock" by code_simp
  have c: "restConnect True True NeverSettles initial_rest_state = ([], restMockConnected, Inr Mock)"
    by code_simp
  have p: "renderBrowserPanel True initial_state =
        Some \<lparr>counterValue = 0, stateValue = ''idle'', themeValue = ''Blue'',
              lastEventValue = ''none'',
              previewBackground =
                ''linear-gradient(135deg, rgba(18, 64, 130, 0.45), rgba(40, 120, 202, 0.45))'',
              barWidthPercent = 0\<rparr>"
    by code_simp
  note t = mock_mode_on_failed_acquisition [OF h, where tc = None and env = allFine
      and st = initial_rest_state and r = True and st' = restMockConnected]
  from t m have "initTemplate 4000 (NeverSettles :: nat acquisition) None = Inr (None, MockClient)
   \<and> connect allFine (NeverSettles :: nat acquisition) None =
        \<lparr>clientAfter = Some MockClient, requests = [],
         status = ''Base template: bridge unavailable. Running browser-only mock mode.''\<rparr>
   \<and> fst (updateBridgeListFromBrowserSelect True restMockConnected) = []"
    by simp
  with m c p show ?thesis by (intro conjI) simp_all
qed

text \<open>
  Claim C8 as stated fails: after a connect that found a bridge, a second connect that
  finds none returns the mock mode, and the mock display shows nothing; but the listener
  that the first connect registered is still registered, and a scroll event that the
  bridge then delivers makes it construct the page on the remote display.
\<close>

theorem listener_renders_in_mock_mode_counterexample:
  "snd (snd (restConnect True True NeverSettles restBridgeConnected)) = Inr Mock
   \<and> bridgeDisplay restReconnectFailed = Some Mock
   \<and> eventLoopRegistered restReconnectFailed
   \<and> displayShow Mock True ''Loading...'' restReconnectFailed = ([], restReconnectFailed, Inr ())
   \<and> fst (onEvenHubEvent True scrollDownEvent restReconnectFailed) =
       [CreateStartUpPageContainer
          \<lparr>itemName = DEFAULT_URLS, currentSelectedItem = 1,
           statusContent = ''Select URL and click''\<rparr>]"
  by code_simp

section \<open>Adding and removing options\<close>

lemma dropWhile_rev_snoc:
  "\<not> P x \<Longrightarrow> rev (dropWhile P (rev (x # xs))) = x # rev (dropWhile P (rev xs))"
  by (simp add: dropWhile_append)

lemma trim_idem: "trim (trim s) = trim s"
proof (cases "dropWhile isWhiteSpace s")
  case Nil
  have e: "trim s = []" unfolding trim_def Nil by simp
  have n: "trim [] = []" by (simp add: trim_def)
  show ?thesis by (simp only: e n)
next
  case (Cons x xs)
  then have nx: "\<not> isWhiteSpace x" using hd_dropWhile [of isWhiteSpace s] by simp
  have t: "trim s = x # rev (dropWhile isWhiteSpace (rev xs))"
    unfolding trim_def Cons using nx by (rule dropWhile_rev_snoc [of isWhiteSpace x xs])
  have "dropWhile isWhiteSpace (trim s) = trim s" using nx t by simp
  then have "trim (trim s) = rev (dropWhile isWhiteSpace (rev (trim s)))"
    by (simp add: trim_def)
  also have "\<dots> = x # rev (dropWhile isWhiteSpace (rev (rev (dropWhile isWhiteSpace (rev xs)))))"
    unfolding t using nx
    by (rule dropWhile_rev_snoc [of isWhiteSpace x "rev (dropWhile isWhiteSpace (rev xs))"])
  also have "\<dots> = trim s" by (simp add: t)
  finally show ?thesis .
qed

lemma findIndexFrom_snoc_new:
  "u \<notin> set xs \<Longrightarrow> findIndexFrom i (\<lambda>y. y = u) (xs @ [u]) = i + int (length xs)"
  by (induction xs arbitrary: i) auto

lemma indexOf_snoc_new: "u \<notin> set xs \<Longrightarrow> indexOf (xs @ [u]) u = int (length xs)"
  by (simp add: indexOf_def findIndexFrom_snoc_new)

lemma updateBridgeList_fields:
  "options (snd (updateBridgeListFromBrowserSelect r st)) = options st"
  "domSelectedIndex (snd (updateBridgeListFromBrowserSelect r st)) = domSelectedIndex st"
  "bridgeDisplay (snd (updateBridgeListFromBrowserSelect r st)) = bridgeDisplay st"
  "bridgeDisplay st = Some Bridge \<Longrightarrow>
     selectedIndex (snd (updateBridgeListFromBrowserSelect r st)) =
       clampIndex (domSelectedIndex st) (int (length (options st)))"
  by (simp_all add: updateBridgeListFromBrowserSelect_def bridgeRenderList_def
      renderBridgePage_def getAllUrls_def Let_def clampIndex_def split: prod.splits)

lemma addButtonOnClick_new:
  assumes "trim input \<noteq> []" and "trim input \<notin> set (options st)"
  shows "options (snd (addButtonOnClick r input st)) = options st @ [trim input]"
    and "domSelectedIndex (snd (addButtonOnClick r input st)) = int (length (options st))"
    and "bridgeDisplay (snd (addButtonOnClick r input st)) = bridgeDisplay st"
  using assms
  by (simp_all add: addButtonOnClick_def Let_def updateBridgeList_fields ensureOption_def
      trim_idem selectAppend_def selectSetValue_def indexOf_snoc_new)

lemma removeButtonOnClick_last:
  assumes "options st = xs @ [u]" and "trim u = u" and "u \<noteq> []"
    and "domSelectedIndex st = int (length xs)"
  shows "options (snd (removeButtonOnClick r st)) = xs"
    and "domSelectedIndex (snd (removeButtonOnClick r st)) =
           (if xs = [] then - 1 else int (length xs) - 1)"
    and "bridgeDisplay st = Some Bridge \<Longrightarrow>
         selectedIndex (snd (removeButtonOnClick r st)) =
           clampIndex (if xs = [] then - 1 else int (length xs) - 1) (int (length xs))"
proof -
  have cur: "selectedUrl st = u"
    using assms by (simp add: selectedUrl_def selectValue_def)
  let ?st1 = "selectRemove (int (length xs)) st"
  have r1: "options ?st1 = xs" "domSelectedIndex ?st1 = (if xs = [] then - 1 else 0)"
    "bridgeDisplay ?st1 = bridgeDisplay st" "selectedIndex ?st1 = selectedIndex st"
    using assms by (simp_all add: selectRemove_def Let_def)
  let ?st2 = "if length (options ?st1) > 0
              then selectSetIndex (max 0 (int (length xs) - 1)) ?st1 else ?st1"
  have r2: "options ?st2 = xs"
    "domSelectedIndex ?st2 = (if xs = [] then - 1 else int (length xs) - 1)"
    "bridgeDisplay ?st2 = bridgeDisplay st" "selectedIndex ?st2 = selectedIndex st"
    using r1 by (auto simp: selectSetIndex_def)
  have eq: "removeButtonOnClick r st = updateBridgeListFromBrowserSelect r ?st2"
    using cur assms(3,4) by (simp add: removeButtonOnClick_def Let_def)
  show "options (snd (removeButtonOnClick r st)) = xs"
    unfolding eq updateBridgeList_fields by (rule r2)
  show "domSelectedIndex (snd (removeButtonOnClick r st)) =
           (if xs = [] then - 1 else int (length xs) - 1)"
    unfolding eq updateBridgeList_fields by (rule r2)
  assume "bridgeDisplay st = Some Bridge"
  then have "bridgeDisplay ?st2 = Some Bridge" using r2(3) by simp
  then show "selectedIndex (snd (removeButtonOnClick r st)) =
           clampIndex (if xs = [] then - 1 else int (length xs) - 1) (int (length xs))"
    unfolding eq using updateBridgeList_fields(4) [of ?st2 r] r2 by simp
qed

text \<open>
  Claim C9, as amended. For every option list and every input whose trimmed text is not
  empty and not yet an option, adding it and then removing it restores the prior list,
  same labels in the same order; the select element then shows the last option (none
  when the list is empty), and when a bridge display is held the selection index of the
  state is that index clamped to the length of the list.
\<close>

theorem add_then_remove_restores:
  assumes "trim input \<noteq> []" and "trim input \<notin> set (options st)"
  shows "options (snd (addButtonOnClick r1 input st)) = options st @ [trim input]
    \<and> options (snd (removeButtonOnClick r2 (snd (addButtonOnClick r1 input st)))) = options st
    \<and> domSelectedIndex (snd (removeButtonOnClick r2 (snd (addButtonOnClick r1 input st)))) =
        (if options st = [] then - 1 else int (length (options st)) - 1)
    \<and> (bridgeDisplay st = Some Bridge \<longrightarrow>
         selectedIndex (snd (removeButtonOnClick r2 (snd (addButtonOnClick r1 input st)))) =
           clampIndex
             (domSelectedIndex (snd (removeButtonOnClick r2 (snd (addButtonOnClick r1 input st)))))
             (int (length (options st))))"
proof -
  let ?st1 = "snd (addButtonOnClick r1 input st)"
  note a = addButtonOnClick_new [OF assms, of r1]
  have t: "trim (trim input) = trim input" by (rule trim_idem)
  note b = removeButtonOnClick_last [OF a(1) t assms(1) a(2), of r2]
  have c: "bridgeDisplay st = Some Bridge \<longrightarrow>
         selectedIndex (snd (removeButtonOnClick r2 ?st1)) =
           clampIndex (domSelectedIndex (snd (removeButtonOnClick r2 ?st1)))
             (int (length (options st)))"
    using a(3) b(2,3) by simp
  from a(1) b(1,2) c show ?thesis by simp
qed

theorem add_then_remove_restores_witness:
  "trim '' http://host/a '' \<noteq> []
   \<and> trim '' http://host/a '' \<notin> set (options restBridgeConnected)
   \<and> options (snd (addButtonOnClick True '' http://host/a '' restBridgeConnected))
       = options restBridgeConnected @ [''http://host/a'']
   \<and> options (snd (removeButtonOnClick True
         (snd (addButtonOnClick True '' http://host/a '' restBridgeConnected))))
       = options restBridgeConnected
   \<and> selectedIndex (snd (removeButtonOnClick True
         (snd (addButtonOnClick True '' http://host/a '' restBridgeConnected)))) = 1"
proof -
  have v: "trim '' http://host/a '' = ''http://host/a''" by code_simp
  have h1: "trim '' http://host/a '' \<noteq> []" unfolding v by simp
  have h2: "trim '' http://host/a '' \<notin> set (options restBridgeConnected)" by code_simp
  have b: "bridgeDisplay restBridgeConnected = Some Bridge" by code_simp
  have l: "int (length (options restBridgeConnected)) = 2" by code_simp
  have o: "options restBridgeConnected \<noteq> []" by code_simp
  note t = add_then_remove_restores [OF h1 h2, of True True]
  from t have "selectedIndex (snd (removeButtonOnClick True
         (snd (addButtonOnClick True '' http://host/a '' restBridgeConnected)))) = 1"
    using b l o by (simp add: clampIndex_def)
  with t h1 h2 show ?thesis unfolding v by simp
qed

text \<open>
  Claim C9 as stated fails for an option that is already in the list: adding the first
  default URL again changes nothing and selects it, and removing it then leaves only
  the second URL.
\<close>

theorem add_existing_then_remove_counterexample:
  "options restBridgeConnected =
     [''http://livingkitchen.local/rest/system/clock'',
      ''http://livingkitchen.local/rest/rgb/toggle'']
   \<and> options (snd (addButtonOnClick True ''http://livingkitchen.local/rest/system/clock''
                    restBridgeConnected)) = options restBridgeConnected
   \<and> options (snd (removeButtonOnClick True
        (snd (addButtonOnClick True ''http://livingkitchen.local/rest/system/clock''
                restBridgeConnected)))) =
     [''http://livingkitchen.local/rest/rgb/toggle'']"
  by code_simp

end
